theory Spec2Isabelle
  imports Complex_Main "HOL-Library.AList" "HOL-Library.Product_Lexorder"
    "HOL-Library.Option_ord" "HOL-Library.Multiset"
begin

section \<open>Values, documents and the runtime the models call into\<close>

text \<open>
  The model layer (\<^verbatim>\<open>models/mongodb.py\<close>, \<^verbatim>\<open>models/user_model_mongo.py\<close>,
  \<^verbatim>\<open>models/job_model_mongo.py\<close>, \<^verbatim>\<open>models/application_model_mongo.py\<close>) stores
  schemaless documents in named MongoDB collections. A document is a Python \<^verbatim>\<open>dict\<close>,
  modelled as an association list in insertion order (\<open>map_of\<close> reads a key,
  \<open>AList.update\<close> is \<^verbatim>\<open>d[k] = v\<close>). A database is an association list from collection
  names to the documents of the collection in their natural (insertion) order; a name is
  listed once the collection has been written to.

  An \<^verbatim>\<open>ObjectId\<close> is an opaque 12-byte value, modelled by a number. A naive
  \<^verbatim>\<open>datetime\<close> is the pair (year, microseconds since the start of that year), compared
  lexicographically as Python compares datetimes, so \<^verbatim>\<open>posted_at.year\<close> is \<open>fst\<close>.
  Numbers are modelled by their exact rational value.
\<close>

datatype oid = ObjectId nat

type_synonym datetime = "nat \<times> nat"

datatype val = VNone | VBool bool | VNum rat | VStr string | VOid oid | VTime datetime

type_synonym doc = "(string \<times> val) list"

type_synonym db = "(string \<times> doc list) list"

datatype error =
    ValueError string
  | KeyError string
  | TypeError
  | DuplicateKeyError
  | OperationFailure

text \<open>
  What the repository calls but does not define: Python's builtins \<^verbatim>\<open>hash\<close>,
  \<^verbatim>\<open>str\<close> and \<^verbatim>\<open>float\<close>, bson's \<^verbatim>\<open>ObjectId.is_valid\<close> with the
  \<^verbatim>\<open>ObjectId(str)\<close> constructor (\<open>parse_oid\<close>: \<open>None\<close> when the string is not a
  valid id), and the server's \<^verbatim>\<open>$regex\<close> with \<^verbatim>\<open>$options: "i"\<close> (\<open>regex_i\<close>:
  \<open>None\<close> when the server rejects the pattern, else the matcher of strings). They are
  parameters of the model; a theorem stated for \<open>rt\<close> holds for all of them.

  A runtime stands for one interpreter process. CPython salts the hash of a \<^verbatim>\<open>str\<close>
  with a seed drawn when the process starts (unless \<^verbatim>\<open>PYTHONHASHSEED\<close> fixes it, which
  nothing in the repository does), so two processes of the application are two runtimes
  that agree on everything but \<open>py_hash\<close>.
\<close>

record runtime =
  py_hash :: "string \<Rightarrow> int"
  py_str :: "val \<Rightarrow> string"
  py_float :: "val \<Rightarrow> error + val"
  parse_oid :: "string \<Rightarrow> oid option"
  regex_i :: "string \<Rightarrow> (string \<Rightarrow> bool) option"

text \<open>\<^verbatim>\<open>str(x)\<close>: the identity on a \<^verbatim>\<open>str\<close>, the builtin otherwise.\<close>

definition str_val :: "runtime \<Rightarrow> val \<Rightarrow> string" where
  "str_val rt v = (case v of VStr s \<Rightarrow> s | _ \<Rightarrow> py_str rt v)"

text \<open>Python truthiness, as used by \<^verbatim>\<open>if x:\<close> and \<^verbatim>\<open>a or b\<close>.\<close>

fun truthy :: "val \<Rightarrow> bool" where
  "truthy VNone = False"
| "truthy (VBool b) = b"
| "truthy (VNum r) = (r \<noteq> 0)"
| "truthy (VStr s) = (s \<noteq> [])"
| "truthy (VOid i) = True"
| "truthy (VTime t) = True"

text \<open>\<^verbatim>\<open>d.get(k, default)\<close>.\<close>

definition dict_get :: "doc \<Rightarrow> string \<Rightarrow> val \<Rightarrow> val" where
  "dict_get d k dflt = (case map_of d k of None \<Rightarrow> dflt | Some v \<Rightarrow> v)"

subsection \<open>Python strings\<close>

text \<open>
  \<^verbatim>\<open>s.startswith(p)\<close>, substring test, \<^verbatim>\<open>s.lower()\<close>, \<^verbatim>\<open>s.strip()\<close> and
  \<^verbatim>\<open>s.split(sep)\<close> on ASCII strings.
\<close>

fun startswith :: "string \<Rightarrow> string \<Rightarrow> bool" where
  "startswith s [] = True"
| "startswith [] (p # ps) = False"
| "startswith (c # cs) (p # ps) = (c = p \<and> startswith cs ps)"

fun contains :: "string \<Rightarrow> string \<Rightarrow> bool" where
  "contains [] p = (p = [])"
| "contains (c # cs) p = (startswith (c # cs) p \<or> contains cs p)"

definition lower_char :: "char \<Rightarrow> char" where
  "lower_char c =
     (if 65 \<le> (of_char c :: nat) \<and> (of_char c :: nat) \<le> 90
      then char_of ((of_char c :: nat) + 32) else c)"

definition lower :: "string \<Rightarrow> string" where
  "lower s = map lower_char s"

definition is_digit :: "char \<Rightarrow> bool" where
  "is_digit c = (48 \<le> (of_char c :: nat) \<and> (of_char c :: nat) \<le> 57)"

definition is_space :: "char \<Rightarrow> bool" where
  "is_space c =
     ((of_char c :: nat) = 32 \<or> (9 \<le> (of_char c :: nat) \<and> (of_char c :: nat) \<le> 13)
      \<or> (28 \<le> (of_char c :: nat) \<and> (of_char c :: nat) \<le> 31))"

definition strip :: "string \<Rightarrow> string" where
  "strip s = rev (dropWhile is_space (rev (dropWhile is_space s)))"

fun split :: "char \<Rightarrow> string \<Rightarrow> string list" where
  "split sep [] = [[]]"
| "split sep (c # cs) =
     (if c = sep then [] # split sep cs
      else (case split sep cs of [] \<Rightarrow> [[c]] | w # ws \<Rightarrow> (c # w) # ws))"

subsection \<open>\<^verbatim>\<open>to_object_id\<close> and \<^verbatim>\<open>serialize_doc\<close> (mongodb.py)\<close>

fun to_object_id :: "runtime \<Rightarrow> val \<Rightarrow> error + val" where
  "to_object_id rt (VOid i) = Inr (VOid i)"
| "to_object_id rt (VStr s) =
     (case parse_oid rt s of
        Some i \<Rightarrow> Inr (VOid i)
      | None \<Rightarrow> Inl (ValueError (''Invalid ObjectId: '' @ s)))"
| "to_object_id rt v = Inl (ValueError (''Invalid ObjectId: '' @ py_str rt v))"

text \<open>
  The prologue of every model function:
  \<^verbatim>\<open>if isinstance(x, str): x = to_object_id(x)\<close>. A value that is not a string is
  passed on as it is.
\<close>

definition str_to_object_id :: "runtime \<Rightarrow> val \<Rightarrow> error + val" where
  "str_to_object_id rt x = (case x of VStr s \<Rightarrow> to_object_id rt (VStr s) | _ \<Rightarrow> Inr x)"

text \<open>
  \<^verbatim>\<open>serialize_doc\<close> on a \<^verbatim>\<open>dict\<close>: the key \<^verbatim>\<open>_id\<close> becomes \<^verbatim>\<open>id\<close> with the value's
  string, an ObjectId under any other key becomes its string, everything else is kept.
  Documents here are flat, so the recursive cases for nested dicts and lists do not arise.
\<close>

definition serialize_item :: "runtime \<Rightarrow> string \<times> val \<Rightarrow> string \<times> val" where
  "serialize_item rt kv =
     (if fst kv = ''_id'' then (''id'', VStr (str_val rt (snd kv)))
      else (case snd kv of
              VOid i \<Rightarrow> (fst kv, VStr (py_str rt (VOid i)))
            | _ \<Rightarrow> kv))"

definition serialize_doc :: "runtime \<Rightarrow> doc \<Rightarrow> doc" where
  "serialize_doc rt d =
     foldl (\<lambda>result kv. AList.update (fst (serialize_item rt kv)) (snd (serialize_item rt kv)) result)
       [] d"

section \<open>The storage client (mongodb.py)\<close>

text \<open>
  A query is a list of equality conditions \<^verbatim>\<open>{field: value, ...}\<close>. As in MongoDB,
  \<^verbatim>\<open>{field: None}\<close> also matches a document without the field.
\<close>

type_synonym query = "(string \<times> val) list"

definition field_is :: "doc \<Rightarrow> string \<times> val \<Rightarrow> bool" where
  "field_is d cond =
     (case map_of d (fst cond) of None \<Rightarrow> snd cond = VNone | Some w \<Rightarrow> w = snd cond)"

definition matches :: "query \<Rightarrow> doc \<Rightarrow> bool" where
  "matches q d = list_all (field_is d) q"

definition get_collection :: "db \<Rightarrow> string \<Rightarrow> doc list" where
  "get_collection db name = (case map_of db name of None \<Rightarrow> [] | Some ds \<Rightarrow> ds)"

definition list_collection_names :: "db \<Rightarrow> string list" where
  "list_collection_names db = map fst db"

definition find_one :: "db \<Rightarrow> string \<Rightarrow> query \<Rightarrow> doc option" where
  "find_one db name q = find (matches q) (get_collection db name)"

text \<open>
  What is written goes through BSON, which keeps a datetime as a count of whole
  milliseconds: the driver drops the microseconds below a millisecond
  (\<^verbatim>\<open>microsecond // 1000\<close>), and a datetime read back has none. Every other value
  of the model is stored as it is. No query of the model layer carries a datetime, so
  queries are compared as they are.
\<close>

definition bson_value :: "val \<Rightarrow> val" where
  "bson_value v = (case v of VTime t \<Rightarrow> VTime (fst t, snd t div 1000 * 1000) | _ \<Rightarrow> v)"

definition bson_doc :: "doc \<Rightarrow> doc" where
  "bson_doc d = map (\<lambda>kv. (fst kv, bson_value (snd kv))) d"

text \<open>
  \<^verbatim>\<open>insert_one\<close>: the driver adds a fresh \<^verbatim>\<open>_id\<close> (the parameter \<open>fresh\<close>) to a
  document that has none, also in the caller's dict; the server refuses a document whose
  \<^verbatim>\<open>_id\<close> is already in the collection. The result is the inserted id, the caller's
  dict as the call leaves it, and the new database, which holds the document as BSON
  encodes it.
\<close>

definition insert_one :: "oid \<Rightarrow> db \<Rightarrow> string \<Rightarrow> doc \<Rightarrow> error + (val \<times> doc \<times> db)" where
  "insert_one fresh db name document =
     (let stored = (case map_of document ''_id'' of
                      None \<Rightarrow> (''_id'', VOid fresh) # document
                    | Some i \<Rightarrow> document);
          inserted_id = dict_get stored ''_id'' VNone
      in if list_ex (\<lambda>d. map_of d ''_id'' = Some (bson_value inserted_id)) (get_collection db name)
         then Inl DuplicateKeyError
         else Inr (inserted_id, stored,
                   AList.update name (get_collection db name @ [bson_doc stored]) db))"

fun remove_first :: "('a \<Rightarrow> bool) \<Rightarrow> 'a list \<Rightarrow> 'a list" where
  "remove_first P [] = []"
| "remove_first P (x # xs) = (if P x then xs else x # remove_first P xs)"

text \<open>\<^verbatim>\<open>delete_one\<close> returns \<^verbatim>\<open>deleted_count\<close>; a collection that does not exist is not created.\<close>

definition delete_one :: "db \<Rightarrow> string \<Rightarrow> query \<Rightarrow> nat \<times> db" where
  "delete_one db name q =
     (case find (matches q) (get_collection db name) of
        None \<Rightarrow> (0, db)
      | Some d \<Rightarrow> (1, AList.update name (remove_first (matches q) (get_collection db name)) db))"

definition delete_many :: "db \<Rightarrow> string \<Rightarrow> query \<Rightarrow> nat \<times> db" where
  "delete_many db name q =
     (case find (matches q) (get_collection db name) of
        None \<Rightarrow> (0, db)
      | Some d \<Rightarrow> (length (filter (matches q) (get_collection db name)),
                   AList.update name (filter (\<lambda>d. \<not> matches q d) (get_collection db name)) db))"

text \<open>
  \<^verbatim>\<open>update_one(name, query, {"$set": fields})\<close> returns \<^verbatim>\<open>modified_count\<close>: 1 when
  the first matching document changed, 0 when nothing matched or nothing changed.
\<close>

fun replace_first :: "('a \<Rightarrow> bool) \<Rightarrow> ('a \<Rightarrow> 'a) \<Rightarrow> 'a list \<Rightarrow> 'a list" where
  "replace_first P f [] = []"
| "replace_first P f (x # xs) = (if P x then f x # xs else x # replace_first P f xs)"

definition set_fields :: "doc \<Rightarrow> doc \<Rightarrow> doc" where
  "set_fields upd d = foldl (\<lambda>r kv. AList.update (fst kv) (snd kv) r) d upd"

definition update_one :: "db \<Rightarrow> string \<Rightarrow> query \<Rightarrow> doc \<Rightarrow> nat \<times> db" where
  "update_one db name q upd =
     (case find (matches q) (get_collection db name) of
        None \<Rightarrow> (0, db)
      | Some d \<Rightarrow>
          if set_fields (bson_doc upd) d = d then (0, db)
          else (1, AList.update name
                     (replace_first (matches q) (set_fields (bson_doc upd)) (get_collection db name)) db))"

section \<open>The partition router (mongodb.py)\<close>

text \<open>Decimal rendering of an integer, as an f-string formats it.\<close>

fun digits :: "nat \<Rightarrow> string" where
  "digits n =
     (if n < 10 then [''0123456789'' ! n]
      else digits (n div 10) @ [''0123456789'' ! (n mod 10)])"

definition str_int :: "int \<Rightarrow> string" where
  "str_int i = (if i < 0 then CHR ''-'' # digits (nat (- i)) else digits (nat i))"

text \<open>
  \<^verbatim>\<open>hash(str(value)) % num_partitions\<close>. Python's \<^verbatim>\<open>%\<close> takes the sign of the
  divisor, as \<open>mod\<close> on \<open>int\<close> does. The only call passes 8 (a zero divisor, which
  Python rejects, is never passed).
\<close>

definition hash_partition :: "runtime \<Rightarrow> val \<Rightarrow> int \<Rightarrow> int" where
  "hash_partition rt v num_partitions = py_hash rt (str_val rt v) mod num_partitions"

definition get_worker_partition_collection :: "runtime \<Rightarrow> val \<Rightarrow> string" where
  "get_worker_partition_collection rt worker_id =
     ''workers_partition_'' @ str_int (hash_partition rt worker_id 8)"

definition get_jobs_partition_collection :: "nat \<Rightarrow> string" where
  "get_jobs_partition_collection year = ''jobs_'' @ str_int (int year)"

definition get_all_worker_partitions :: "string list" where
  "get_all_worker_partitions = map (\<lambda>i. ''workers_partition_'' @ str_int (int i)) [0..<8]"

section \<open>Workers and users (user\_model\_mongo.py)\<close>

text \<open>
  \<^verbatim>\<open>if worker:\<close> on the result of a lookup: \<^verbatim>\<open>None\<close> and the empty dict are
  falsy, every other dict is truthy.
\<close>

definition truthy_doc :: "doc option \<Rightarrow> doc option" where
  "truthy_doc r = (case r of Some (x # xs) \<Rightarrow> Some (x # xs) | _ \<Rightarrow> None)"

text \<open>
  \<^verbatim>\<open>_find_worker_in_partitions(query)\<close>: the partitions are tried in the order of
  \<^verbatim>\<open>get_all_worker_partitions()\<close>; the first truthy hit is returned serialized.
\<close>

fun find_worker_in :: "runtime \<Rightarrow> db \<Rightarrow> query \<Rightarrow> string list \<Rightarrow> doc option" where
  "find_worker_in rt db q [] = None"
| "find_worker_in rt db q (partition_name # rest) =
     (case truthy_doc (find_one db partition_name q) of
        Some worker \<Rightarrow> Some (serialize_doc rt worker)
      | None \<Rightarrow> find_worker_in rt db q rest)"

definition find_worker_in_partitions :: "runtime \<Rightarrow> db \<Rightarrow> query \<Rightarrow> doc option" where
  "find_worker_in_partitions rt db q = find_worker_in rt db q get_all_worker_partitions"

text \<open>
  \<^verbatim>\<open>ensure_worker_row(user_id, full_name, skills)\<close>. \<open>fresh\<close> is the id the driver
  generates for the staging insert, \<open>now\<close> is \<^verbatim>\<open>datetime.utcnow()\<close>. The result is
  the returned dict or the exception raised, with the database as the call leaves it.
\<close>

definition ensure_worker_row ::
  "runtime \<Rightarrow> oid \<Rightarrow> datetime \<Rightarrow> db \<Rightarrow> val \<Rightarrow> string \<Rightarrow> string \<Rightarrow> (error + doc) \<times> db" where
  "ensure_worker_row rt fresh now db user_id full_name skills =
     (case str_to_object_id rt user_id of
        Inl e \<Rightarrow> (Inl e, db)
      | Inr uid \<Rightarrow>
          (case truthy_doc (find_worker_in_partitions rt db [(''user_id'', uid)]) of
             None \<Rightarrow>
               (let worker_doc =
                      [(''user_id'', uid), (''full_name'', VStr full_name), (''skills'', VStr skills),
                       (''phone'', VStr []), (''location'', VStr []), (''experience'', VStr []),
                       (''created_at'', VTime now)]
                in case insert_one fresh db ''workers'' worker_doc of
                     Inl e \<Rightarrow> (Inl e, db)
                   | Inr (worker_id, inserted, db1) \<Rightarrow>
                       (let partition_coll = get_worker_partition_collection rt worker_id;
                            worker_doc' = AList.update ''_id'' worker_id inserted
                        in case insert_one fresh db1 partition_coll worker_doc' of
                             Inl e \<Rightarrow> (Inl e, db1)
                           | Inr (i, stored, db2) \<Rightarrow>
                               (Inr [(''worker_id'', VStr (str_val rt worker_id)),
                                     (''user_id'', VStr (str_val rt uid))],
                                snd (delete_one db2 ''workers'' [(''_id'', worker_id)]))))
           | Some found \<Rightarrow>
               (let worker = serialize_doc rt found
                in case map_of worker ''id'' of
                     None \<Rightarrow> (Inl (KeyError ''id''), db)
                   | Some i \<Rightarrow> (Inr (AList.update ''worker_id'' i worker), db))))"

text \<open>\<^verbatim>\<open>get_worker_by_id(worker_id)\<close>: \<open>Inr None\<close> is the \<^verbatim>\<open>None\<close> it returns when nothing is found.\<close>

definition get_worker_by_id :: "runtime \<Rightarrow> db \<Rightarrow> val \<Rightarrow> error + doc option" where
  "get_worker_by_id rt db worker_id =
     (case str_to_object_id rt worker_id of
        Inl e \<Rightarrow> Inl e
      | Inr wid \<Rightarrow>
          (case truthy_doc (find_one db (get_worker_partition_collection rt wid) [(''_id'', wid)]) of
             Some found \<Rightarrow>
               (let worker = serialize_doc rt found
                in case map_of worker ''id'' of
                     None \<Rightarrow> Inl (KeyError ''id'')
                   | Some i \<Rightarrow>
                       (let worker' = AList.update ''worker_id'' i worker
                        in case map_of worker' ''user_id'' of
                             None \<Rightarrow> Inl (KeyError ''user_id'')
                           | Some u \<Rightarrow> Inr (Some (AList.update ''user_id'' (VStr (str_val rt u)) worker'))))
           | None \<Rightarrow>
               (case truthy_doc (find_worker_in_partitions rt db [(''_id'', wid)]) of
                  Some worker \<Rightarrow>
                    (case map_of worker ''id'' of
                       None \<Rightarrow> Inl (KeyError ''id'')
                     | Some i \<Rightarrow> Inr (Some (AList.update ''worker_id'' i worker)))
                | None \<Rightarrow> Inr None)))"

text \<open>
  \<^verbatim>\<open>upsert_worker_profile(worker_id, data)\<close>: the update goes to the partition computed
  from the id's hash and nowhere else; the result is \<^verbatim>\<open>modified_count\<close>.
  \<^verbatim>\<open>a or b\<close> is \<open>a\<close> when \<open>a\<close> is truthy and \<open>b\<close> otherwise.
\<close>

definition upsert_worker_profile ::
  "runtime \<Rightarrow> datetime \<Rightarrow> db \<Rightarrow> val \<Rightarrow> doc \<Rightarrow> (error + nat) \<times> db" where
  "upsert_worker_profile rt now db worker_id data =
     (case str_to_object_id rt worker_id of
        Inl e \<Rightarrow> (Inl e, db)
      | Inr wid \<Rightarrow>
          (let experience_value =
                 (if truthy (dict_get data ''experience_years'' VNone)
                  then dict_get data ''experience_years'' VNone
                  else dict_get data ''experience'' (VStr []));
               update_data =
                 [(''full_name'', dict_get data ''full_name'' (VStr [])),
                  (''skills'', dict_get data ''skills'' (VStr [])),
                  (''phone'', dict_get data ''phone'' (VStr [])),
                  (''location'', dict_get data ''location'' (VStr [])),
                  (''experience'', experience_value),
                  (''experience_years'', experience_value),
                  (''age'', dict_get data ''age'' (VStr [])),
                  (''gender'', dict_get data ''gender'' (VStr [])),
                  (''updated_at'', VTime now)];
               partition_coll = get_worker_partition_collection rt wid
           in (Inr (fst (update_one db partition_coll [(''_id'', wid)] update_data)),
               snd (update_one db partition_coll [(''_id'', wid)] update_data))))"

text \<open>\<^verbatim>\<open>delete_user(user_id)\<close>: the result is the \<^verbatim>\<open>deleted_count\<close> of the user row.\<close>

definition delete_user :: "runtime \<Rightarrow> db \<Rightarrow> val \<Rightarrow> (error + nat) \<times> db" where
  "delete_user rt db user_id =
     (case str_to_object_id rt user_id of
        Inl e \<Rightarrow> (Inl e, db)
      | Inr uid \<Rightarrow>
          (case truthy_doc (find_one db ''users'' [(''_id'', uid)]) of
             Some user \<Rightarrow>
               (let db1 = snd (delete_one db ''workers'' [(''user_id'', uid)]);
                    db2 = snd (delete_one db1 ''employers'' [(''user_id'', uid)]);
                    db3 = snd (delete_one db2 ''admins'' [(''user_id'', uid)])
                in (Inr (fst (delete_one db3 ''users'' [(''_id'', uid)])),
                    snd (delete_one db3 ''users'' [(''_id'', uid)])))
           | None \<Rightarrow> (Inr 0, db)))"

section \<open>Applications (application\_model\_mongo.py)\<close>

text \<open>
  \<^verbatim>\<open>create_application(job_id, worker_id)\<close>; \<open>applied\<close> and \<open>created\<close> are its two
  readings of the clock.
\<close>

definition create_application ::
  "runtime \<Rightarrow> oid \<Rightarrow> datetime \<Rightarrow> datetime \<Rightarrow> db \<Rightarrow> val \<Rightarrow> val \<Rightarrow> (error + val) \<times> db" where
  "create_application rt fresh applied created db job_id worker_id =
     (case str_to_object_id rt job_id of
        Inl e \<Rightarrow> (Inl e, db)
      | Inr jid \<Rightarrow>
          (case str_to_object_id rt worker_id of
             Inl e \<Rightarrow> (Inl e, db)
           | Inr wid \<Rightarrow>
               (case truthy_doc (find_one db ''applications'' [(''job_id'', jid), (''worker_id'', wid)]) of
                  Some existing \<Rightarrow> (Inl (ValueError ''Application already exists for this job''), db)
                | None \<Rightarrow>
                    (case insert_one fresh db ''applications''
                            [(''job_id'', jid), (''worker_id'', wid),
                             (''application_status'', VStr ''pending''),
                             (''applied_at'', VTime applied), (''created_at'', VTime created)] of
                       Inl e \<Rightarrow> (Inl e, db)
                     | Inr (inserted_id, stored, db') \<Rightarrow> (Inr inserted_id, db')))))"

section \<open>Jobs (job\_model\_mongo.py)\<close>

text \<open>
  \<^verbatim>\<open>float(data.get(k, 0)) if data.get(k) else None\<close>, the salary fields of \<^verbatim>\<open>post_job\<close>.
\<close>

definition salary_value :: "runtime \<Rightarrow> doc \<Rightarrow> string \<Rightarrow> error + val" where
  "salary_value rt data k =
     (if truthy (dict_get data k VNone) then py_float rt (dict_get data k (VNum 0)) else Inr VNone)"

text \<open>
  \<^verbatim>\<open>post_job(employer_id, data)\<close>: the job goes to the partition of the current year.
  \<open>fresh\<close> is the id the driver generates, \<open>now\<close> is \<^verbatim>\<open>datetime.utcnow()\<close>.
\<close>

definition post_job ::
  "runtime \<Rightarrow> oid \<Rightarrow> datetime \<Rightarrow> db \<Rightarrow> val \<Rightarrow> doc \<Rightarrow> (error + val) \<times> db" where
  "post_job rt fresh now db employer_id data =
     (case str_to_object_id rt employer_id of
        Inl e \<Rightarrow> (Inl e, db)
      | Inr eid \<Rightarrow>
          (case salary_value rt data ''salary_min'' of
             Inl e \<Rightarrow> (Inl e, db)
           | Inr smin \<Rightarrow>
               (case salary_value rt data ''salary_max'' of
                  Inl e \<Rightarrow> (Inl e, db)
                | Inr smax \<Rightarrow>
                    (let job_doc =
                           [(''employer_id'', eid),
                            (''title'', dict_get data ''title'' (VStr [])),
                            (''required_skills'', dict_get data ''required_skills'' (VStr [])),
                            (''description'', dict_get data ''description'' (VStr [])),
                            (''salary_min'', smin),
                            (''salary_max'', smax),
                            (''location'', dict_get data ''location'' (VStr [])),
                            (''status'', VStr ''open''),
                            (''posted_at'', VTime now),
                            (''created_at'', VTime now)];
                         partition_coll = get_jobs_partition_collection (fst now)
                     in case insert_one fresh db partition_coll job_doc of
                          Inl e \<Rightarrow> (Inl e, db)
                        | Inr (inserted_id, stored, db') \<Rightarrow> (Inr inserted_id, db')))))"

text \<open>\<^verbatim>\<open>_get_all_job_partitions()\<close>: the existing collections named \<^verbatim>\<open>jobs_...\<close>.\<close>

definition get_all_job_partitions :: "db \<Rightarrow> string list" where
  "get_all_job_partitions db =
     filter (\<lambda>c. startswith c ''jobs_'' \<and> c \<noteq> ''jobs'') (list_collection_names db)"

text \<open>
  \<^verbatim>\<open>update_job(job_id, data)\<close>. A field enters the update when it is in \<^verbatim>\<open>data\<close>
  and is not \<^verbatim>\<open>None\<close>; the salaries go through \<^verbatim>\<open>float\<close>.
\<close>

definition given :: "doc \<Rightarrow> string \<Rightarrow> val option" where
  "given data k = (case map_of data k of Some v \<Rightarrow> (if v = VNone then None else Some v) | None \<Rightarrow> None)"

definition copy_field :: "doc \<Rightarrow> string \<Rightarrow> doc" where
  "copy_field data k = (case given data k of Some v \<Rightarrow> [(k, v)] | None \<Rightarrow> [])"

definition float_field :: "runtime \<Rightarrow> doc \<Rightarrow> string \<Rightarrow> error + doc" where
  "float_field rt data k =
     (case given data k of
        Some v \<Rightarrow> (case py_float rt v of Inl e \<Rightarrow> Inl e | Inr f \<Rightarrow> Inr [(k, f)])
      | None \<Rightarrow> Inr [])"

definition update_job :: "runtime \<Rightarrow> datetime \<Rightarrow> db \<Rightarrow> val \<Rightarrow> doc \<Rightarrow> (error + nat) \<times> db" where
  "update_job rt now db job_id data =
     (case str_to_object_id rt job_id of
        Inl e \<Rightarrow> (Inl e, db)
      | Inr jid \<Rightarrow>
          (case truthy_doc (find_one db ''jobs'' [(''_id'', jid)]) of
             None \<Rightarrow> (Inl (ValueError ''Job not found''), db)
           | Some job \<Rightarrow>
               (case float_field rt data ''salary_min'' of
                  Inl e \<Rightarrow> (Inl e, db)
                | Inr smin \<Rightarrow>
                    (case float_field rt data ''salary_max'' of
                       Inl e \<Rightarrow> (Inl e, db)
                     | Inr smax \<Rightarrow>
                         (let update_fields =
                                copy_field data ''title'' @ copy_field data ''required_skills''
                                @ copy_field data ''description'' @ smin @ smax
                                @ copy_field data ''location'' @ copy_field data ''status''
                          in if update_fields \<noteq> []
                             then (Inr (fst (update_one db ''jobs'' [(''_id'', jid)]
                                               (update_fields @ [(''updated_at'', VTime now)]))),
                                   snd (update_one db ''jobs'' [(''_id'', jid)]
                                          (update_fields @ [(''updated_at'', VTime now)])))
                             else (Inr 0, db))))))"

text \<open>
  \<^verbatim>\<open>delete_job(job_id)\<close>: the applications of the job are deleted first, then the
  partitions are tried in turn until one reports a deletion.
\<close>

fun delete_from_partitions :: "db \<Rightarrow> val \<Rightarrow> string list \<Rightarrow> nat \<times> db" where
  "delete_from_partitions db jid [] = (0, db)"
| "delete_from_partitions db jid (partition_name # rest) =
     (if fst (delete_one db partition_name [(''_id'', jid)]) > 0
      then (1, snd (delete_one db partition_name [(''_id'', jid)]))
      else delete_from_partitions (snd (delete_one db partition_name [(''_id'', jid)])) jid rest)"

definition delete_job :: "runtime \<Rightarrow> db \<Rightarrow> val \<Rightarrow> (error + nat) \<times> db" where
  "delete_job rt db job_id =
     (case str_to_object_id rt job_id of
        Inl e \<Rightarrow> (Inl e, db)
      | Inr jid \<Rightarrow>
          (let db1 = snd (delete_many db ''applications'' [(''job_id'', jid)])
           in (Inr (fst (delete_from_partitions db1 jid (get_all_job_partitions db1))),
               snd (delete_from_partitions db1 jid (get_all_job_partitions db1)))))"

text \<open>\<^verbatim>\<open>get_job_by_id(job_id)\<close>: the first partition with a hit answers.\<close>

fun find_job_in :: "runtime \<Rightarrow> db \<Rightarrow> val \<Rightarrow> string list \<Rightarrow> error + doc option" where
  "find_job_in rt db jid [] = Inr None"
| "find_job_in rt db jid (partition_name # rest) =
     (case truthy_doc (find_one db partition_name [(''_id'', jid)]) of
        Some found \<Rightarrow>
          (let job = serialize_doc rt found
           in case map_of job ''id'' of
                None \<Rightarrow> Inl (KeyError ''id'')
              | Some i \<Rightarrow> Inr (Some (AList.update ''job_id'' i job)))
      | None \<Rightarrow> find_job_in rt db jid rest)"

definition get_job_by_id :: "runtime \<Rightarrow> db \<Rightarrow> val \<Rightarrow> error + doc option" where
  "get_job_by_id rt db job_id =
     (case str_to_object_id rt job_id of
        Inl e \<Rightarrow> Inl e
      | Inr jid \<Rightarrow> find_job_in rt db jid (get_all_job_partitions db))"

subsection \<open>Aggregation pipelines: \<^verbatim>\<open>search_jobs\<close> and \<^verbatim>\<open>worker_matched_jobs\<close>\<close>

text \<open>
  \<^verbatim>\<open>{field: {"$regex": pattern, "$options": "i"}}\<close> holds of a document whose field is
  a string the pattern matches. A pipeline with a pattern the server rejects fails as a
  whole.
\<close>

definition regex_field :: "(string \<Rightarrow> bool) \<Rightarrow> string \<Rightarrow> doc \<Rightarrow> bool" where
  "regex_field m k d = (case map_of d k of Some (VStr s) \<Rightarrow> m s | _ \<Rightarrow> False)"

definition compile :: "runtime \<Rightarrow> string list \<Rightarrow> (string \<Rightarrow> bool) list option" where
  "compile rt patterns = those (map (regex_i rt) patterns)"

text \<open>\<^verbatim>\<open>if x:\<close> on an optional string argument.\<close>

definition nonempty :: "string option \<Rightarrow> string option" where
  "nonempty x = (case x of Some (c # cs) \<Rightarrow> Some (c # cs) | _ \<Rightarrow> None)"

text \<open>
  \<^verbatim>\<open>$lookup\<close> from \<^verbatim>\<open>employers\<close> on \<^verbatim>\<open>employer_id = _id\<close> (a missing field
  counts as null), followed by \<^verbatim>\<open>$unwind\<close>: one output per matching employer, none when
  there is no employer.
\<close>

definition or_null :: "val option \<Rightarrow> val" where
  "or_null x = (case x of None \<Rightarrow> VNone | Some v \<Rightarrow> v)"

definition lookup_employer :: "doc list \<Rightarrow> doc \<Rightarrow> doc list" where
  "lookup_employer employers job =
     filter (\<lambda>e. or_null (map_of e ''_id'') = or_null (map_of job ''employer_id'')) employers"

definition unwind_employer :: "doc list \<Rightarrow> doc list \<Rightarrow> (doc \<times> doc) list" where
  "unwind_employer employers jobs =
     concat (map (\<lambda>job. map (Pair job) (lookup_employer employers job)) jobs)"

text \<open>\<^verbatim>\<open>$project\<close>: \<^verbatim>\<open>field: 1\<close> keeps a field that is there; a path copies one under a new name.\<close>

definition keep :: "string \<Rightarrow> doc \<Rightarrow> doc" where
  "keep k d = (case map_of d k of Some v \<Rightarrow> [(k, v)] | None \<Rightarrow> [])"

definition path_as :: "string \<Rightarrow> string \<Rightarrow> doc \<Rightarrow> doc" where
  "path_as new k d = (case map_of d k of Some v \<Rightarrow> [(new, v)] | None \<Rightarrow> [])"

definition id_to_string :: "runtime \<Rightarrow> doc \<Rightarrow> val" where
  "id_to_string rt d =
     (case or_null (map_of d ''_id'') of VNone \<Rightarrow> VNone | v \<Rightarrow> VStr (str_val rt v))"

definition job_fields :: "runtime \<Rightarrow> doc \<Rightarrow> doc" where
  "job_fields rt job =
     keep ''_id'' job @ [(''job_id'', id_to_string rt job)] @ keep ''title'' job
     @ keep ''location'' job @ keep ''posted_at'' job @ keep ''required_skills'' job
     @ keep ''description'' job @ keep ''salary_min'' job @ keep ''salary_max'' job"

text \<open>
  \<^verbatim>\<open>$sort: {posted_at: -1}\<close> and Python's
  \<^verbatim>\<open>sort(key=lambda x: x.get("posted_at", datetime.min), reverse=True)\<close>. Both are the
  stable descending sort (a \<^verbatim>\<open>reverse=True\<close> sort keeps equal keys in their original
  order; the server leaves the order of ties open, the model keeps them in collection
  order). The server ranks a missing, null or other non-date value below every date.
  Python cannot compare a datetime with another type: the model raises \<^verbatim>\<open>TypeError\<close>
  as soon as two or more results are sorted and one key is not a datetime. This is what
  Python does whenever a datetime is among the keys, and \<^verbatim>\<open>post_job\<close> writes a
  datetime to every job; results whose keys are all of one other type are outside what
  the theorems below are about.
\<close>

definition sort_desc :: "('a \<Rightarrow> 'k::linorder) \<Rightarrow> 'a list \<Rightarrow> 'a list" where
  "sort_desc k xs = rev (sort_key k (rev xs))"

definition mongo_key :: "doc \<Rightarrow> datetime option" where
  "mongo_key d = (case map_of d ''posted_at'' of Some (VTime t) \<Rightarrow> Some t | _ \<Rightarrow> None)"

definition datetime_min :: datetime where
  "datetime_min = (1, 0)"

definition py_key :: "doc \<Rightarrow> datetime option" where
  "py_key x =
     (case map_of x ''posted_at'' of
        None \<Rightarrow> Some datetime_min
      | Some (VTime t) \<Rightarrow> Some t
      | Some other \<Rightarrow> None)"

definition posted_at :: "doc \<Rightarrow> datetime" where
  "posted_at x = (case py_key x of Some t \<Rightarrow> t | None \<Rightarrow> datetime_min)"

definition py_sort_desc :: "doc list \<Rightarrow> error + doc list" where
  "py_sort_desc xs =
     (if 2 \<le> length xs \<and> list_ex (\<lambda>x. py_key x = None) xs then Inl TypeError
      else Inr (sort_desc posted_at xs))"

text \<open>
  \<^verbatim>\<open>search_jobs(query_text, location, skills)\<close>: one aggregation, on the collection
  \<^verbatim>\<open>jobs\<close>.
\<close>

definition search_condition ::
  "runtime \<Rightarrow> string option \<Rightarrow> string option \<Rightarrow> string option \<Rightarrow> (doc \<Rightarrow> bool) option" where
  "search_condition rt query_text location skills =
     (case compile rt (case nonempty query_text of Some t \<Rightarrow> [t] | None \<Rightarrow> []) of
        None \<Rightarrow> None
      | Some text_ms \<Rightarrow>
     (case compile rt (case nonempty location of Some l \<Rightarrow> [l] | None \<Rightarrow> []) of
        None \<Rightarrow> None
      | Some location_ms \<Rightarrow>
     (case compile rt (case nonempty skills of
                         Some s \<Rightarrow> map strip (filter (\<lambda>s. strip s \<noteq> []) (split CHR '','' s))
                       | None \<Rightarrow> []) of
        None \<Rightarrow> None
      | Some skill_ms \<Rightarrow>
          Some (\<lambda>d. field_is d (''status'', VStr ''open'')
                 \<and> list_all (\<lambda>m. regex_field m ''title'' d \<or> regex_field m ''description'' d
                                \<or> regex_field m ''required_skills'' d) text_ms
                 \<and> list_all (\<lambda>m. regex_field m ''location'' d \<or> map_of d ''location'' = None
                                \<or> field_is d (''location'', VNone)) location_ms
                 \<and> (skill_ms = [] \<or> list_ex (\<lambda>m. regex_field m ''required_skills'' d) skill_ms)))))"

definition search_jobs ::
  "runtime \<Rightarrow> db \<Rightarrow> string option \<Rightarrow> string option \<Rightarrow> string option \<Rightarrow> error + doc list" where
  "search_jobs rt db query_text location skills =
     (case search_condition rt query_text location skills of
        None \<Rightarrow> Inl OperationFailure
      | Some cond \<Rightarrow>
          Inr (map (serialize_doc rt)
                 (take 50 (sort_desc mongo_key
                    (map (\<lambda>(job, employer). job_fields rt job @ path_as ''company_name'' ''company_name'' employer)
                       (unwind_employer (get_collection db ''employers'')
                          (filter cond (get_collection db ''jobs''))))))))"

text \<open>
  \<^verbatim>\<open>worker_matched_jobs(worker_id, skills, location)\<close>. The server rejects an empty
  \<^verbatim>\<open>$or\<close>, so a worker without skills makes every partition's aggregation fail. The
  second \<^verbatim>\<open>$lookup\<close> collects the applications of this worker for the job;
  \<^verbatim>\<open>application_status\<close> is null without one, else the first status among them.
\<close>

definition matched_condition ::
  "runtime \<Rightarrow> string list \<Rightarrow> string option \<Rightarrow> (doc \<Rightarrow> bool) option" where
  "matched_condition rt worker_skills location =
     (if worker_skills = [] then None
      else case compile rt worker_skills of
             None \<Rightarrow> None
           | Some skill_ms \<Rightarrow>
               Some (\<lambda>d. field_is d (''status'', VStr ''open'')
                      \<and> list_ex (\<lambda>m. regex_field m ''required_skills'' d) skill_ms
                      \<and> (case nonempty location of
                            None \<Rightarrow> True
                          | Some l \<Rightarrow> field_is d (''location'', VStr l) \<or> map_of d ''location'' = None
                                      \<or> field_is d (''location'', VNone)
                                      \<or> field_is d (''location'', VStr []))))"

definition lookup_application :: "doc list \<Rightarrow> val \<Rightarrow> doc \<Rightarrow> doc list" where
  "lookup_application applications worker_id job =
     filter (\<lambda>a. map_of a ''job_id'' = map_of job ''_id'' \<and> map_of a ''worker_id'' = Some worker_id)
       applications"

definition application_status :: "doc list \<Rightarrow> doc" where
  "application_status application =
     (if application = [] then [(''application_status'', VNone)]
      else case concat (map (keep ''application_status'') application) of
             [] \<Rightarrow> []
           | status # others \<Rightarrow> [status])"

definition matched_project :: "runtime \<Rightarrow> doc list \<Rightarrow> val \<Rightarrow> doc \<times> doc \<Rightarrow> doc" where
  "matched_project rt applications worker_id je =
     job_fields rt (fst je)
     @ application_status (lookup_application applications worker_id (fst je))
     @ path_as ''company_name'' ''company_name'' (snd je)
     @ path_as ''company_phone'' ''phone'' (snd je)
     @ path_as ''company_location'' ''location'' (snd je)"

definition aggregate_matched ::
  "runtime \<Rightarrow> db \<Rightarrow> val \<Rightarrow> string list \<Rightarrow> string option \<Rightarrow> string \<Rightarrow> error + doc list" where
  "aggregate_matched rt db worker_id worker_skills location partition_name =
     (case matched_condition rt worker_skills location of
        None \<Rightarrow> Inl OperationFailure
      | Some cond \<Rightarrow>
          Inr (take 100 (sort_desc mongo_key
                 (map (matched_project rt (get_collection db ''applications'') worker_id)
                    (unwind_employer (get_collection db ''employers'')
                       (filter cond (get_collection db partition_name)))))))"

text \<open>
  The loop over the partitions: a partition whose aggregation raises is skipped
  (\<^verbatim>\<open>except Exception: ... continue\<close>), the results of the others are appended.
\<close>

fun scan_partitions :: "(string \<Rightarrow> error + doc list) \<Rightarrow> string list \<Rightarrow> doc list" where
  "scan_partitions run [] = []"
| "scan_partitions run (partition_name # rest) =
     (case run partition_name of
        Inl e \<Rightarrow> scan_partitions run rest
      | Inr partition_results \<Rightarrow> partition_results @ scan_partitions run rest)"

text \<open>\<^verbatim>\<open>[s.strip().lower() for s in skills.split(',') if s.strip()]\<close>.\<close>

definition skill_tokens :: "string \<Rightarrow> string list" where
  "skill_tokens skills =
     map (\<lambda>s. lower (strip s)) (filter (\<lambda>s. strip s \<noteq> []) (split CHR '','' skills))"

definition worker_matched_jobs ::
  "runtime \<Rightarrow> db \<Rightarrow> val \<Rightarrow> string \<Rightarrow> string option \<Rightarrow> error + doc list" where
  "worker_matched_jobs rt db worker_id skills location =
     (case str_to_object_id rt worker_id of
        Inl e \<Rightarrow> Inl e
      | Inr wid \<Rightarrow>
          (let worker_skills = skill_tokens skills;
               all_results =
                 scan_partitions (aggregate_matched rt db wid worker_skills location)
                   (get_all_job_partitions db)
           in case py_sort_desc all_results of
                Inl e \<Rightarrow> Inl e
              | Inr sorted_results \<Rightarrow> Inr (map (serialize_doc rt) (take 100 sorted_results))))"

section \<open>Observations used to state the theorems\<close>

text \<open>
  The physical worker records of a user: the documents with that \<^verbatim>\<open>user_id\<close> in the
  eight worker partitions taken together.
\<close>

definition worker_records :: "db \<Rightarrow> val \<Rightarrow> doc list" where
  "worker_records db uid =
     concat (map (\<lambda>p. filter (matches [(''user_id'', uid)]) (get_collection db p))
               get_all_worker_partitions)"

text \<open>
  The jobs a matched-jobs query is about: the documents of all job partitions, in the
  order of the scan, that pass the \<^verbatim>\<open>$match\<close> stage (open, one of the worker's skills
  matching \<^verbatim>\<open>required_skills\<close>, and the location filter when one is given).
\<close>

definition matching_jobs :: "runtime \<Rightarrow> db \<Rightarrow> string \<Rightarrow> string option \<Rightarrow> doc list" where
  "matching_jobs rt db skills location =
     (case matched_condition rt (skill_tokens skills) location of
        None \<Rightarrow> []
      | Some cond \<Rightarrow>
          concat (map (\<lambda>p. filter cond (get_collection db p)) (get_all_job_partitions db)))"

text \<open>
  The matching jobs as the employer join of the pipeline leaves them
  (\<^verbatim>\<open>$lookup\<close> from \<^verbatim>\<open>employers\<close>, then \<^verbatim>\<open>$unwind\<close>, which drops a document
  whose lookup is empty): a matching job is listed once for each employer row carrying its
  \<^verbatim>\<open>employer_id\<close>, so not at all when that row is missing.
\<close>

definition joined_jobs :: "runtime \<Rightarrow> db \<Rightarrow> string \<Rightarrow> string option \<Rightarrow> doc list" where
  "joined_jobs rt db skills location =
     map fst (unwind_employer (get_collection db ''employers'') (matching_jobs rt db skills location))"

text \<open>Merging two lists that are in descending order, used to reason about the cap.\<close>

fun merge_desc :: "'a::linorder list \<Rightarrow> 'a list \<Rightarrow> 'a list" where
  "merge_desc [] bs = bs"
| "merge_desc (a # as) [] = a # as"
| "merge_desc (a # as) (b # bs) =
     (if b \<le> a then a # merge_desc as (b # bs) else b # merge_desc (a # as) bs)"

text \<open>
  What \<^verbatim>\<open>serialize_doc\<close> does to the value under a key other than \<^verbatim>\<open>_id\<close>.
\<close>

definition serialize_value :: "runtime \<Rightarrow> val \<Rightarrow> val" where
  "serialize_value rt v = (case v of VOid i \<Rightarrow> VStr (py_str rt (VOid i)) | _ \<Rightarrow> v)"

text \<open>
  The order the data model asks of a job's salaries:
  \<^verbatim>\<open>salary_min \<le> salary_max\<close> whenever both are numbers.
\<close>

definition salary_ordered :: "doc \<Rightarrow> bool" where
  "salary_ordered job =
     (case map_of job ''salary_min'' of
        Some (VNum lo) \<Rightarrow> (case map_of job ''salary_max'' of Some (VNum hi) \<Rightarrow> lo \<le> hi | _ \<Rightarrow> True)
      | _ \<Rightarrow> True)"

section \<open>A concrete runtime and sample data, for evaluating the model\<close>

text \<open>
  One instance of the runtime, used to run the model on concrete inputs: the hash of a
  string is the sum of its character codes, an ObjectId prints as its decimal number and
  is parsed back from one, \<open>float\<close> keeps a number and rejects everything else, and a
  pattern without metacharacters matches as a case-insensitive substring (what a regular
  expression engine does with such a pattern).
\<close>

definition sample_str :: "val \<Rightarrow> string" where
  "sample_str v =
     (case v of
        VOid (ObjectId n) \<Rightarrow> digits n
      | VStr s \<Rightarrow> s
      | VNone \<Rightarrow> ''None''
      | VBool b \<Rightarrow> (if b then ''True'' else ''False'')
      | _ \<Rightarrow> ''?'')"

definition sample_float :: "val \<Rightarrow> error + val" where
  "sample_float v =
     (case v of
        VNum r \<Rightarrow> Inr (VNum r)
      | VStr s \<Rightarrow> Inl (ValueError ''could not convert string to float'')
      | _ \<Rightarrow> Inl TypeError)"

definition sample_parse_oid :: "string \<Rightarrow> oid option" where
  "sample_parse_oid s =
     (if s \<noteq> [] \<and> list_all is_digit s
      then Some (ObjectId (foldl (\<lambda>a c. 10 * a + ((of_char c :: nat) - 48)) 0 s))
      else None)"

definition sample_rt :: runtime where
  "sample_rt =
     \<lparr> py_hash = (\<lambda>s. int (sum_list (map of_char s))),
       py_str = sample_str,
       py_float = sample_float,
       parse_oid = sample_parse_oid,
       regex_i = (\<lambda>pat. Some (\<lambda>s. contains (lower s) (lower pat))) \<rparr>"

definition sample_job :: "nat \<Rightarrow> string \<Rightarrow> string \<Rightarrow> datetime \<Rightarrow> doc" where
  "sample_job n skills place t =
     [(''_id'', VOid (ObjectId n)), (''employer_id'', VOid (ObjectId 20)),
      (''title'', VStr ''Developer''), (''required_skills'', VStr skills),
      (''location'', VStr place), (''status'', VStr ''open''), (''posted_at'', VTime t)]"

definition sample_db :: db where
  "sample_db =
     [(''users'', [[(''_id'', VOid (ObjectId 1)), (''email'', VStr ''asha@example.org''),
                    (''role'', VStr ''worker'')]]),
      (''employers'', [[(''_id'', VOid (ObjectId 20)), (''user_id'', VOid (ObjectId 2)),
                        (''company_name'', VStr ''Acme''), (''phone'', VStr ''555''),
                        (''location'', VStr ''Mumbai'')]]),
      (''jobs_2024'', [sample_job 101 ''React, MongoDB, Node.js'' ''Mumbai'' (2024, 2000),
                       sample_job 102 ''Python'' ''Mumbai'' (2024, 0),
                       sample_job 103 ''python, sql'' ''Mumbai'' (2024, 1000)]),
      (''jobs_2025'', [sample_job 104 ''React'' ''Mumbai'' (2025, 0),
                       sample_job 105 ''Django, Python'' ''Mumbai'' (2025, 1000)]),
      (''applications'', [[(''_id'', VOid (ObjectId 30)), (''job_id'', VOid (ObjectId 101)),
                           (''worker_id'', VOid (ObjectId 12)),
                           (''application_status'', VStr ''pending'')],
                          [(''_id'', VOid (ObjectId 31)), (''job_id'', VOid (ObjectId 999)),
                           (''worker_id'', VOid (ObjectId 12)),
                           (''application_status'', VStr ''pending'')]])]"

definition sample_worker :: "nat \<Rightarrow> nat \<Rightarrow> string \<Rightarrow> doc" where
  "sample_worker n u name =
     [(''_id'', VOid (ObjectId n)), (''user_id'', VOid (ObjectId u)),
      (''full_name'', VStr name), (''skills'', VStr ''Python, React'')]"

text \<open>
  Worker 12 sits in the partition of its hash (3); worker 40 sits in partition 5 although
  its hash gives 4, as a row written before partitioning would.
\<close>

definition sample_workers_db :: db where
  "sample_workers_db =
     [(''users'', [[(''_id'', VOid (ObjectId 1)), (''email'', VStr ''asha@example.org''),
                    (''role'', VStr ''worker'')]]),
      (''workers_partition_3'', [sample_worker 12 1 ''Asha'']),
      (''workers_partition_5'', [sample_worker 40 7 ''Ravi''])]"

text \<open>
  A database with one registered user and no worker row yet, and the job data of one
  posting.
\<close>

definition sample_users_db :: db where
  "sample_users_db =
     [(''users'', [[(''_id'', VOid (ObjectId 1)), (''email'', VStr ''asha@example.org''),
                    (''role'', VStr ''worker'')]])]"

definition sample_job_data :: doc where
  "sample_job_data =
     [(''title'', VStr ''Tester''), (''required_skills'', VStr ''Python''),
      (''salary_min'', VNum 5000), (''salary_max'', VNum 1000)]"

text \<open>
  The same application in a second interpreter process: the string hash has another seed
  (here the sum of the character codes plus 5), everything else is as before.
\<close>

definition restarted_rt :: runtime where
  "restarted_rt =
     \<lparr> py_hash = (\<lambda>s. int (sum_list (map of_char s)) + 5),
       py_str = sample_str,
       py_float = sample_float,
       parse_oid = sample_parse_oid,
       regex_i = (\<lambda>pat. Some (\<lambda>s. contains (lower s) (lower pat))) \<rparr>"

text \<open>
  Two employers with their users and three open jobs, job 103 posted by employer 21; and
  the same database after \<^verbatim>\<open>delete_user\<close> of user 3, the user of employer 21.
\<close>

definition sample_employers_db :: db where
  "sample_employers_db =
     [(''users'', [[(''_id'', VOid (ObjectId 2)), (''email'', VStr ''acme@example.org''),
                    (''role'', VStr ''employer'')],
                   [(''_id'', VOid (ObjectId 3)), (''email'', VStr ''bolt@example.org''),
                    (''role'', VStr ''employer'')]]),
      (''employers'', [[(''_id'', VOid (ObjectId 20)), (''user_id'', VOid (ObjectId 2)),
                        (''company_name'', VStr ''Acme''), (''phone'', VStr ''555''),
                        (''location'', VStr ''Mumbai'')],
                       [(''_id'', VOid (ObjectId 21)), (''user_id'', VOid (ObjectId 3)),
                        (''company_name'', VStr ''Bolt''), (''phone'', VStr ''777''),
                        (''location'', VStr ''Pune'')]]),
      (''jobs_2024'', [sample_job 102 ''Python'' ''Mumbai'' (2024, 0),
                       AList.update ''employer_id'' (VOid (ObjectId 21))
                         (sample_job 103 ''python, sql'' ''Pune'' (2024, 1000))]),
      (''jobs_2025'', [sample_job 105 ''Django, Python'' ''Mumbai'' (2025, 1000)])]"

definition orphaned_db :: db where
  "orphaned_db = snd (delete_user sample_rt sample_employers_db (VOid (ObjectId 3)))"

text \<open>
  The users database after the first process has created the worker row of user 1; the
  driver generated the worker id 12.
\<close>

definition registered_db :: db where
  "registered_db =
     snd (ensure_worker_row sample_rt (ObjectId 12) (2025, 1) sample_users_db (VOid (ObjectId 1))
            ''Asha'' ''Python, React'')"

section \<open>Theorems\<close>

lemma digits_small: "n < 10 \<Longrightarrow> digits n = [''0123456789'' ! n]"
  by simp

lemma all_worker_partitions_eq:
  "get_all_worker_partitions =
     [''workers_partition_0'', ''workers_partition_1'', ''workers_partition_2'',
      ''workers_partition_3'', ''workers_partition_4'', ''workers_partition_5'',
      ''workers_partition_6'', ''workers_partition_7'']"
  by (simp add: get_all_worker_partitions_def str_int_def upt_rec numeral_eq_Suc del: digits.simps add: digits_small)


lemma partition_collection_listed:
  "get_worker_partition_collection rt worker_id \<in> set get_all_worker_partitions"
proof -
  define tag where "tag = hash_partition rt worker_id 8"
  have "0 \<le> tag \<and> tag < 8"
    by (simp add: tag_def hash_partition_def)
  then have "nat tag \<in> set [0..<8]" and "int (nat tag) = tag"
    by (simp_all add: nat_less_iff)
  then have "(\<lambda>i. ''workers_partition_'' @ str_int (int i)) (nat tag)
      \<in> (\<lambda>i. ''workers_partition_'' @ str_int (int i)) ` set [0..<8]"
    by (intro imageI)
  with \<open>int (nat tag) = tag\<close>
  have "''workers_partition_'' @ str_int tag \<in> (\<lambda>i. ''workers_partition_'' @ str_int (int i)) ` set [0..<8]"
    by simp
  then show ?thesis
    by (simp add: tag_def get_worker_partition_collection_def get_all_worker_partitions_def)
qed

text \<open>
  Within one process the tag lies in \<open>[0, 8)\<close>, whatever the hash function, and the
  collection name resolved from it is one of the eight static worker partitions.
\<close>

lemma hash_partition_in_range:
  "0 \<le> hash_partition rt worker_id 8 \<and> hash_partition rt worker_id 8 < 8
   \<and> get_worker_partition_collection rt worker_id \<in> set get_all_worker_partitions"
  using partition_collection_listed [of rt worker_id]
  by (simp add: hash_partition_def)

subsection \<open>Facts about the storage client\<close>

lemma get_collection_update:
  "get_collection (AList.update k v db) name = (if name = k then v else get_collection db name)"
  by (simp add: get_collection_def update_conv')

lemma names_update_existing:
  "map_of db k = Some ds \<Longrightarrow> list_collection_names (AList.update k v db) = list_collection_names db"
  by (auto simp: list_collection_names_def update_keys dest: map_of_SomeD intro: rev_image_eqI)

lemma find_list_ex: "list_ex P xs \<Longrightarrow> \<exists>d. find P xs = Some d \<and> P d"
  by (induction xs) auto

lemma find_None_filter: "find P xs = None \<Longrightarrow> filter (\<lambda>x. \<not> P x) xs = xs"
  by (induction xs) (auto split: if_splits)

lemma get_collection_nonempty: "get_collection db name \<noteq> [] \<Longrightarrow> \<exists>ds. map_of db name = Some ds"
  by (auto simp: get_collection_def split: option.splits)

lemma matches_oid_nonempty: "matches ((k, VOid i) # q) d \<Longrightarrow> d \<noteq> []"
  by (auto simp: matches_def field_is_def)

lemma truthy_doc_nonempty: "d \<noteq> [] \<Longrightarrow> truthy_doc (Some d) = Some d"
  by (cases d) (simp_all add: truthy_doc_def)

lemma delete_many_collection:
  "get_collection (snd (delete_many db name q)) other =
     (if other = name then filter (\<lambda>d. \<not> matches q d) (get_collection db name)
      else get_collection db other)"
  by (auto simp: delete_many_def get_collection_update find_None_filter split: option.splits)

lemma delete_many_names:
  "list_collection_names (snd (delete_many db name q)) = list_collection_names db"
proof (cases "find (matches q) (get_collection db name)")
  case None
  then show ?thesis by (simp add: delete_many_def)
next
  case (Some d)
  then have "get_collection db name \<noteq> []" by auto
  then obtain ds where "map_of db name = Some ds"
    using get_collection_nonempty by blast
  with Some show ?thesis
    by (simp add: delete_many_def names_update_existing)
qed

lemma sample_ids:
  "str_to_object_id sample_rt (VOid i) = Inr (VOid i)"
  "str_to_object_id sample_rt (VStr ''101'') = Inr (VOid (ObjectId 101))"
  "str_to_object_id sample_rt (VStr ''999'') = Inr (VOid (ObjectId 999))"
  by (simp_all add: str_to_object_id_def sample_rt_def sample_parse_oid_def is_digit_def)

subsection \<open>Applications\<close>

text \<open>
  C7. When an application for the pair (job, worker) already exists,
  \<^verbatim>\<open>create_application\<close> raises \<^verbatim>\<open>ValueError("Application already exists for this job")\<close>
  and leaves the database as it was: nothing is inserted, so the number of applications
  for the pair is what it was before the call (1 when the pair had one).
\<close>

theorem create_application_duplicate_rejected:
  assumes "str_to_object_id rt job_id = Inr (VOid j)"
      and "str_to_object_id rt worker_id = Inr (VOid w)"
      and "list_ex (matches [(''job_id'', VOid j), (''worker_id'', VOid w)])
             (get_collection db ''applications'')"
  shows "create_application rt fresh applied created db job_id worker_id
           = (Inl (ValueError ''Application already exists for this job''), db)"
proof -
  obtain d where d: "find_one db ''applications'' [(''job_id'', VOid j), (''worker_id'', VOid w)] = Some d"
      and m: "matches [(''job_id'', VOid j), (''worker_id'', VOid w)] d"
    using find_list_ex [OF assms(3)] by (auto simp: find_one_def)
  from m have "d \<noteq> []" by (rule matches_oid_nonempty)
  then have "truthy_doc (Some d) = Some d"
    by (rule truthy_doc_nonempty)
  with d assms(1,2) show ?thesis
    by (simp add: create_application_def)
qed

theorem create_application_duplicate_rejected_witness:
  "str_to_object_id sample_rt (VStr ''101'') = Inr (VOid (ObjectId 101))
   \<and> str_to_object_id sample_rt (VOid (ObjectId 12)) = Inr (VOid (ObjectId 12))
   \<and> list_ex (matches [(''job_id'', VOid (ObjectId 101)), (''worker_id'', VOid (ObjectId 12))])
        (get_collection sample_db ''applications'')
   \<and> create_application sample_rt (ObjectId 32) (2025, 5) (2025, 6) sample_db
        (VStr ''101'') (VOid (ObjectId 12))
       = (Inl (ValueError ''Application already exists for this job''), sample_db)"
proof -
  have ex: "list_ex (matches [(''job_id'', VOid (ObjectId 101)), (''worker_id'', VOid (ObjectId 12))])
        (get_collection sample_db ''applications'')"
    by (simp add: get_collection_def sample_db_def matches_def field_is_def)
  show ?thesis
    using create_application_duplicate_rejected [OF sample_ids(2) sample_ids(1) ex] ex sample_ids
    by simp
qed

subsection \<open>Deleting a job that is in no partition\<close>

lemma delete_from_partitions_absent:
  "list_all (\<lambda>p. find_one db p [(''_id'', jid)] = None) ps \<Longrightarrow> delete_from_partitions db jid ps = (0, db)"
  by (induction ps) (auto simp: delete_one_def find_one_def)

lemma job_partition_not_applications: "p \<in> set (get_all_job_partitions db) \<Longrightarrow> p \<noteq> ''applications''"
  by (auto simp: get_all_job_partitions_def)

text \<open>
  C10. For a job id that is in none of the year partitions, \<^verbatim>\<open>delete_job\<close> returns 0
  and still deletes every application whose \<^verbatim>\<open>job_id\<close> is that id (the cascade runs
  before the job is looked for); every other collection is left as it was. So a call that
  reports no deletion can change the applications, as it does on the sample database.
\<close>

theorem delete_job_absent_cascades:
  assumes "str_to_object_id rt job_id = Inr jid"
      and "list_all (\<lambda>p. find_one db p [(''_id'', jid)] = None) (get_all_job_partitions db)"
  shows "fst (delete_job rt db job_id) = Inr 0
     \<and> get_collection (snd (delete_job rt db job_id)) ''applications''
         = filter (\<lambda>a. \<not> matches [(''job_id'', jid)] a) (get_collection db ''applications'')
     \<and> (\<forall>name. name \<noteq> ''applications'' \<longrightarrow>
           get_collection (snd (delete_job rt db job_id)) name = get_collection db name)"
proof -
  define db1 where "db1 = snd (delete_many db ''applications'' [(''job_id'', jid)])"
  have parts: "get_all_job_partitions db1 = get_all_job_partitions db"
    by (simp add: db1_def get_all_job_partitions_def delete_many_names)
  have "list_all (\<lambda>p. find_one db1 p [(''_id'', jid)] = None) (get_all_job_partitions db)"
    using assms(2) job_partition_not_applications [of _ db]
    by (auto simp: list_all_iff find_one_def db1_def delete_many_collection)
  then have "delete_from_partitions db1 jid (get_all_job_partitions db1) = (0, db1)"
    by (simp add: parts delete_from_partitions_absent)
  then have "delete_job rt db job_id = (Inr 0, db1)"
    using assms(1) by (simp add: delete_job_def db1_def Let_def)
  then show ?thesis
    by (simp add: db1_def delete_many_collection)
qed

theorem delete_job_absent_cascades_witness:
  "str_to_object_id sample_rt (VStr ''999'') = Inr (VOid (ObjectId 999))
   \<and> list_all (\<lambda>p. find_one sample_db p [(''_id'', VOid (ObjectId 999))] = None)
        (get_all_job_partitions sample_db)
   \<and> fst (delete_job sample_rt sample_db (VStr ''999'')) = Inr 0
   \<and> length (get_collection sample_db ''applications'') = 2
   \<and> length (get_collection (snd (delete_job sample_rt sample_db (VStr ''999''))) ''applications'') = 1"
proof -
  have absent: "list_all (\<lambda>p. find_one sample_db p [(''_id'', VOid (ObjectId 999))] = None)
        (get_all_job_partitions sample_db)"
    by (simp add: get_all_job_partitions_def list_collection_names_def sample_db_def find_one_def
        get_collection_def sample_job_def matches_def field_is_def)
  have apps: "get_collection sample_db ''applications'' =
      [[(''_id'', VOid (ObjectId 30)), (''job_id'', VOid (ObjectId 101)),
        (''worker_id'', VOid (ObjectId 12)), (''application_status'', VStr ''pending'')],
       [(''_id'', VOid (ObjectId 31)), (''job_id'', VOid (ObjectId 999)),
        (''worker_id'', VOid (ObjectId 12)), (''application_status'', VStr ''pending'')]]"
    by (simp add: get_collection_def sample_db_def)
  show ?thesis
    using delete_job_absent_cascades [OF sample_ids(3) absent] absent sample_ids(3)
    by (simp add: apps matches_def field_is_def)
qed

subsection \<open>Looking a worker up by id\<close>

lemma serialize_fold_dom:
  "dom (map_of (foldl (\<lambda>result kv. AList.update (fst (serialize_item rt kv)) (snd (serialize_item rt kv)) result) acc d))
     = dom (map_of acc) \<union> (\<lambda>kv. fst (serialize_item rt kv)) ` set d"
  by (induction d arbitrary: acc) (simp_all add: update_conv')

lemma serialize_doc_dom:
  "dom (map_of (serialize_doc rt d)) = (\<lambda>kv. fst (serialize_item rt kv)) ` set d"
  by (simp add: serialize_doc_def serialize_fold_dom)

lemma serialize_has_id:
  assumes "map_of d ''_id'' = Some v"
  shows "\<exists>s. map_of (serialize_doc rt d) ''id'' = Some s"
proof -
  from assms have "(''_id'', v) \<in> set d" by (rule map_of_SomeD)
  then have "fst (serialize_item rt (''_id'', v)) \<in> dom (map_of (serialize_doc rt d))"
    unfolding serialize_doc_dom by (rule imageI)
  then show ?thesis by (auto simp: serialize_item_def)
qed

lemma serialize_keeps_key:
  assumes "map_of d k = Some v" and "k \<noteq> ''_id''"
  shows "\<exists>s. map_of (serialize_doc rt d) k = Some s"
proof -
  from assms(1) have "(k, v) \<in> set d" by (rule map_of_SomeD)
  then have "fst (serialize_item rt (k, v)) \<in> dom (map_of (serialize_doc rt d))"
    unfolding serialize_doc_dom by (rule imageI)
  moreover have "fst (serialize_item rt (k, v)) = k"
    using assms(2) by (simp add: serialize_item_def split: val.splits)
  ultimately show ?thesis by auto
qed

lemma matches_id: "matches [(''_id'', VOid i)] d \<longleftrightarrow> map_of d ''_id'' = Some (VOid i)"
  by (auto simp: matches_def field_is_def split: option.splits)

lemma find_one_matches: "find_one db name q = Some d \<Longrightarrow> matches q d"
  by (auto simp: find_one_def find_Some_iff)

lemma find_worker_in_first_hit:
  "k < length ps \<Longrightarrow> \<forall>j<k. find_one db (ps ! j) q = None \<Longrightarrow> find_one db (ps ! k) q = Some d
     \<Longrightarrow> d \<noteq> [] \<Longrightarrow> find_worker_in rt db q ps = Some (serialize_doc rt d)"
proof (induction ps arbitrary: k)
  case Nil
  then show ?case by simp
next
  case (Cons p ps)
  show ?case
  proof (cases k)
    case 0
    with Cons.prems show ?thesis by (simp add: truthy_doc_nonempty)
  next
    case (Suc k')
    with Cons.prems have "find_one db p q = None" by auto
    moreover have "find_worker_in rt db q ps = Some (serialize_doc rt d)"
      using Cons.prems Suc by (intro Cons.IH [of k']) auto
    ultimately show ?thesis by (simp add: truthy_doc_def)
  qed
qed

lemma find_worker_in_none:
  "list_all (\<lambda>p. find_one db p q = None) ps \<Longrightarrow> find_worker_in rt db q ps = None"
  by (induction ps) (auto simp: truthy_doc_def)

text \<open>
  C6. \<^verbatim>\<open>get_worker_by_id\<close> first asks the partition computed from the id's hash. A worker
  found there (with a \<^verbatim>\<open>user_id\<close>, which the direct branch reads) is returned
  serialized, with \<^verbatim>\<open>worker_id\<close> set to its id string. When that partition has no
  such worker, the eight partitions are scanned in the order of
  \<^verbatim>\<open>get_all_worker_partitions()\<close> and the first hit is returned; when no partition
  has the worker, the result is \<^verbatim>\<open>None\<close>.
\<close>

theorem get_worker_by_id_lookup:
  assumes id: "str_to_object_id rt worker_id = Inr (VOid i)"
  shows "(\<forall>d. find_one db (get_worker_partition_collection rt (VOid i)) [(''_id'', VOid i)] = Some d
            \<and> map_of d ''user_id'' \<noteq> None
          \<longrightarrow> (\<exists>v u. map_of (serialize_doc rt d) ''id'' = Some v
                \<and> map_of (serialize_doc rt d) ''user_id'' = Some u
                \<and> get_worker_by_id rt db worker_id
                    = Inr (Some (AList.update ''user_id'' (VStr (str_val rt u))
                                   (AList.update ''worker_id'' v (serialize_doc rt d))))))
     \<and> (\<forall>k d. find_one db (get_worker_partition_collection rt (VOid i)) [(''_id'', VOid i)] = None
            \<and> k < length get_all_worker_partitions
            \<and> (\<forall>j<k. find_one db (get_all_worker_partitions ! j) [(''_id'', VOid i)] = None)
            \<and> find_one db (get_all_worker_partitions ! k) [(''_id'', VOid i)] = Some d
          \<longrightarrow> (\<exists>v. map_of (serialize_doc rt d) ''id'' = Some v
                \<and> get_worker_by_id rt db worker_id
                    = Inr (Some (AList.update ''worker_id'' v (serialize_doc rt d)))))
     \<and> (list_all (\<lambda>p. find_one db p [(''_id'', VOid i)] = None) get_all_worker_partitions
          \<longrightarrow> get_worker_by_id rt db worker_id = Inr None)"
proof (intro conjI allI impI)
  fix d
  assume h: "find_one db (get_worker_partition_collection rt (VOid i)) [(''_id'', VOid i)] = Some d
      \<and> map_of d ''user_id'' \<noteq> None"
  then have m: "map_of d ''_id'' = Some (VOid i)"
    using find_one_matches matches_id by blast
  then obtain v where v: "map_of (serialize_doc rt d) ''id'' = Some v"
    using serialize_has_id by blast
  from h obtain u where u: "map_of (serialize_doc rt d) ''user_id'' = Some u"
    using serialize_keeps_key [of d "''user_id''" _ rt] by auto
  from m have "d \<noteq> []" by auto
  then have "truthy_doc (Some d) = Some d" by (rule truthy_doc_nonempty)
  with h v u id
  have "get_worker_by_id rt db worker_id
      = Inr (Some (AList.update ''user_id'' (VStr (str_val rt u))
                     (AList.update ''worker_id'' v (serialize_doc rt d))))"
    by (simp add: get_worker_by_id_def Let_def update_conv')
  with v u
  show "\<exists>v u. map_of (serialize_doc rt d) ''id'' = Some v
      \<and> map_of (serialize_doc rt d) ''user_id'' = Some u
      \<and> get_worker_by_id rt db worker_id
          = Inr (Some (AList.update ''user_id'' (VStr (str_val rt u))
                         (AList.update ''worker_id'' v (serialize_doc rt d))))"
    by blast
next
  fix k d
  assume h: "find_one db (get_worker_partition_collection rt (VOid i)) [(''_id'', VOid i)] = None
      \<and> k < length get_all_worker_partitions
      \<and> (\<forall>j<k. find_one db (get_all_worker_partitions ! j) [(''_id'', VOid i)] = None)
      \<and> find_one db (get_all_worker_partitions ! k) [(''_id'', VOid i)] = Some d"
  then have m: "map_of d ''_id'' = Some (VOid i)"
    using find_one_matches matches_id by blast
  then obtain v where v: "map_of (serialize_doc rt d) ''id'' = Some v"
    using serialize_has_id by blast
  from m have "d \<noteq> []" by auto
  with h have "find_worker_in_partitions rt db [(''_id'', VOid i)] = Some (serialize_doc rt d)"
    unfolding find_worker_in_partitions_def by (intro find_worker_in_first_hit [of k]) auto
  moreover from v have "serialize_doc rt d \<noteq> []" by auto
  then have "truthy_doc (Some (serialize_doc rt d)) = Some (serialize_doc rt d)"
    by (rule truthy_doc_nonempty)
  moreover from h have "truthy_doc (find_one db (get_worker_partition_collection rt (VOid i))
      [(''_id'', VOid i)]) = None"
    by (simp add: truthy_doc_def)
  ultimately have "get_worker_by_id rt db worker_id
      = Inr (Some (AList.update ''worker_id'' v (serialize_doc rt d)))"
    using v id by (simp add: get_worker_by_id_def)
  with v show "\<exists>v. map_of (serialize_doc rt d) ''id'' = Some v
      \<and> get_worker_by_id rt db worker_id = Inr (Some (AList.update ''worker_id'' v (serialize_doc rt d)))"
    by blast
next
  assume h: "list_all (\<lambda>p. find_one db p [(''_id'', VOid i)] = None) get_all_worker_partitions"
  then have "find_one db (get_worker_partition_collection rt (VOid i)) [(''_id'', VOid i)] = None"
    using partition_collection_listed [of rt "VOid i"] by (simp add: list_all_iff)
  moreover from h have "find_worker_in_partitions rt db [(''_id'', VOid i)] = None"
    unfolding find_worker_in_partitions_def by (rule find_worker_in_none)
  ultimately show "get_worker_by_id rt db worker_id = Inr None"
    using id by (simp add: get_worker_by_id_def truthy_doc_def)
qed

lemma list_all_take_nth: "list_all P (take n xs) \<Longrightarrow> n \<le> length xs \<Longrightarrow> \<forall>j<n. P (xs ! j)"
  by (auto simp: list_all_length)

lemma sample_partitions:
  "get_worker_partition_collection sample_rt (VOid (ObjectId 12)) = ''workers_partition_3''"
  "get_worker_partition_collection sample_rt (VOid (ObjectId 40)) = ''workers_partition_4''"
  "get_worker_partition_collection sample_rt (VOid (ObjectId 77)) = ''workers_partition_6''"
  by (simp_all add: get_worker_partition_collection_def hash_partition_def sample_rt_def
      str_val_def sample_str_def str_int_def)

lemma sample_ids2:
  "str_to_object_id sample_rt (VStr ''12'') = Inr (VOid (ObjectId 12))"
  "str_to_object_id sample_rt (VStr ''40'') = Inr (VOid (ObjectId 40))"
  "str_to_object_id sample_rt (VStr ''77'') = Inr (VOid (ObjectId 77))"
  by (simp_all add: str_to_object_id_def sample_rt_def sample_parse_oid_def is_digit_def)

lemma sample_find_12:
  "find_one sample_workers_db ''workers_partition_3'' [(''_id'', VOid (ObjectId 12))]
     = Some (sample_worker 12 1 ''Asha'')"
  by (simp add: find_one_def get_collection_def sample_workers_db_def sample_worker_def
      matches_def field_is_def)

lemma sample_find_40:
  "find_one sample_workers_db p [(''_id'', VOid (ObjectId 40))]
     = (if p = ''workers_partition_5'' then Some (sample_worker 40 7 ''Ravi'') else None)"
  by (simp add: find_one_def get_collection_def sample_workers_db_def sample_worker_def
      matches_def field_is_def)

lemma sample_find_77:
  "find_one sample_workers_db p [(''_id'', VOid (ObjectId 77))] = None"
  by (simp add: find_one_def get_collection_def sample_workers_db_def sample_worker_def
      matches_def field_is_def)

theorem get_worker_by_id_lookup_witness:
  "str_to_object_id sample_rt (VStr ''12'') = Inr (VOid (ObjectId 12))
   \<and> find_one sample_workers_db (get_worker_partition_collection sample_rt (VOid (ObjectId 12)))
        [(''_id'', VOid (ObjectId 12))] = Some (sample_worker 12 1 ''Asha'')
   \<and> map_of (sample_worker 12 1 ''Asha'') ''user_id'' \<noteq> None
   \<and> (\<exists>v u. map_of (serialize_doc sample_rt (sample_worker 12 1 ''Asha'')) ''id'' = Some v
          \<and> map_of (serialize_doc sample_rt (sample_worker 12 1 ''Asha'')) ''user_id'' = Some u
          \<and> get_worker_by_id sample_rt sample_workers_db (VStr ''12'')
              = Inr (Some (AList.update ''user_id'' (VStr (str_val sample_rt u))
                             (AList.update ''worker_id'' v
                                (serialize_doc sample_rt (sample_worker 12 1 ''Asha''))))))
   \<and> str_to_object_id sample_rt (VStr ''40'') = Inr (VOid (ObjectId 40))
   \<and> find_one sample_workers_db (get_worker_partition_collection sample_rt (VOid (ObjectId 40)))
        [(''_id'', VOid (ObjectId 40))] = None
   \<and> get_all_worker_partitions ! 5 = ''workers_partition_5''
   \<and> find_one sample_workers_db ''workers_partition_5'' [(''_id'', VOid (ObjectId 40))]
        = Some (sample_worker 40 7 ''Ravi'')
   \<and> (\<exists>v. map_of (serialize_doc sample_rt (sample_worker 40 7 ''Ravi'')) ''id'' = Some v
          \<and> get_worker_by_id sample_rt sample_workers_db (VStr ''40'')
              = Inr (Some (AList.update ''worker_id'' v
                             (serialize_doc sample_rt (sample_worker 40 7 ''Ravi'')))))
   \<and> str_to_object_id sample_rt (VStr ''77'') = Inr (VOid (ObjectId 77))
   \<and> list_all (\<lambda>p. find_one sample_workers_db p [(''_id'', VOid (ObjectId 77))] = None)
        get_all_worker_partitions
   \<and> get_worker_by_id sample_rt sample_workers_db (VStr ''77'') = Inr None"
proof -
  have hit: "find_one sample_workers_db (get_worker_partition_collection sample_rt (VOid (ObjectId 12)))
        [(''_id'', VOid (ObjectId 12))] = Some (sample_worker 12 1 ''Asha'')"
    by (simp add: sample_partitions sample_find_12)
  have user: "map_of (sample_worker 12 1 ''Asha'') ''user_id'' \<noteq> None"
    by (simp add: sample_worker_def)
  have miss: "find_one sample_workers_db (get_worker_partition_collection sample_rt (VOid (ObjectId 40)))
        [(''_id'', VOid (ObjectId 40))] = None"
    by (simp add: sample_partitions sample_find_40)
  have fifth: "get_all_worker_partitions ! 5 = ''workers_partition_5''"
    by (simp add: all_worker_partitions_eq)
  have before: "\<forall>j<5. find_one sample_workers_db (get_all_worker_partitions ! j)
        [(''_id'', VOid (ObjectId 40))] = None"
  proof -
    have "list_all (\<lambda>p. find_one sample_workers_db p [(''_id'', VOid (ObjectId 40))] = None)
        (take 5 get_all_worker_partitions)"
      by (simp add: all_worker_partitions_eq sample_find_40)
    moreover have "5 \<le> length get_all_worker_partitions"
      by (simp add: all_worker_partitions_eq)
    ultimately show ?thesis
      by (rule list_all_take_nth)
  qed
  have at5: "find_one sample_workers_db ''workers_partition_5'' [(''_id'', VOid (ObjectId 40))]
        = Some (sample_worker 40 7 ''Ravi'')"
    by (simp add: sample_find_40)
  have absent: "list_all (\<lambda>p. find_one sample_workers_db p [(''_id'', VOid (ObjectId 77))] = None)
        get_all_worker_partitions"
    by (simp add: sample_find_77 list_all_iff)
  have len: "5 < length get_all_worker_partitions"
    by (simp add: all_worker_partitions_eq)
  note first = get_worker_by_id_lookup [OF sample_ids2(1), of sample_workers_db, THEN conjunct1, rule_format, of "sample_worker 12 1 ''Asha''"]
  note second = get_worker_by_id_lookup [OF sample_ids2(2), of sample_workers_db, THEN conjunct2, THEN conjunct1, rule_format, of 5 "sample_worker 40 7 ''Ravi''"]
  note third = get_worker_by_id_lookup [OF sample_ids2(3), of sample_workers_db, THEN conjunct2, THEN conjunct2, rule_format]
  from first hit user
  have r1: "\<exists>v u. map_of (serialize_doc sample_rt (sample_worker 12 1 ''Asha'')) ''id'' = Some v
          \<and> map_of (serialize_doc sample_rt (sample_worker 12 1 ''Asha'')) ''user_id'' = Some u
          \<and> get_worker_by_id sample_rt sample_workers_db (VStr ''12'')
              = Inr (Some (AList.update ''user_id'' (VStr (str_val sample_rt u))
                             (AList.update ''worker_id'' v
                                (serialize_doc sample_rt (sample_worker 12 1 ''Asha'')))))"
    by blast
  from second miss len before at5 fifth
  have r2: "\<exists>v. map_of (serialize_doc sample_rt (sample_worker 40 7 ''Ravi'')) ''id'' = Some v
          \<and> get_worker_by_id sample_rt sample_workers_db (VStr ''40'')
              = Inr (Some (AList.update ''worker_id'' v
                             (serialize_doc sample_rt (sample_worker 40 7 ''Ravi''))))"
    by simp
  from third absent
  have r3: "get_worker_by_id sample_rt sample_workers_db (VStr ''77'') = Inr None"
    by blast
  show ?thesis
    using sample_ids2 hit user r1 miss fifth at5 r2 absent r3 by blast
qed

subsection \<open>Creating a worker row once\<close>

lemma insert_one_fresh:
  assumes "map_of document ''_id'' = None"
      and "\<not> list_ex (\<lambda>d. map_of d ''_id'' = Some (VOid fresh)) (get_collection db name)"
  shows "insert_one fresh db name document
     = Inr (VOid fresh, (''_id'', VOid fresh) # document,
            AList.update name (get_collection db name @ [(''_id'', VOid fresh) # bson_doc document]) db)"
  using assms by (simp add: insert_one_def dict_get_def Let_def bson_doc_def bson_value_def)

lemma insert_one_with_id:
  assumes "map_of document ''_id'' = Some (VOid i)"
      and "\<not> list_ex (\<lambda>d. map_of d ''_id'' = Some (VOid i)) (get_collection db name)"
  shows "insert_one fresh db name document
     = Inr (VOid i, document, AList.update name (get_collection db name @ [bson_doc document]) db)"
  using assms by (simp add: insert_one_def dict_get_def Let_def bson_value_def)

lemma find_append_last:
  "\<not> list_ex P xs \<Longrightarrow> P y \<Longrightarrow> find P (xs @ [y]) = Some y"
  by (induction xs) auto

lemma remove_first_append_last:
  "\<not> list_ex P xs \<Longrightarrow> P y \<Longrightarrow> remove_first P (xs @ [y]) = xs"
  by (induction xs) auto

lemma delete_one_last:
  assumes "get_collection db name = xs @ [y]" and "\<not> list_ex (matches q) xs" and "matches q y"
  shows "delete_one db name q = (1, AList.update name xs db)"
  using assms by (simp add: delete_one_def find_append_last remove_first_append_last)

lemma partition_not_workers: "p \<in> set get_all_worker_partitions \<Longrightarrow> p \<noteq> ''workers''"
  by (auto simp: all_worker_partitions_eq)

lemma truthy_find_oid:
  "truthy_doc (find_one db p ((k, VOid i) # q)) = find_one db p ((k, VOid i) # q)"
proof (cases "find_one db p ((k, VOid i) # q)")
  case None
  then show ?thesis by (simp add: truthy_doc_def)
next
  case (Some d)
  then have "d \<noteq> []"
    using find_one_matches matches_oid_nonempty by blast
  with Some show ?thesis by (simp add: truthy_doc_nonempty)
qed

lemma truthy_found:
  "find_one db p ((k, VOid i) # q) = Some d \<Longrightarrow> truthy_doc (Some d) = Some d"
  using find_one_matches matches_oid_nonempty truthy_doc_nonempty by blast

lemma find_worker_in_hit_at:
  "p \<in> set ps \<Longrightarrow> \<forall>r\<in>set ps. r \<noteq> p \<longrightarrow> find_one db r ((k, VOid i) # q) = None
     \<Longrightarrow> find_one db p ((k, VOid i) # q) = Some d
     \<Longrightarrow> find_worker_in rt db ((k, VOid i) # q) ps = Some (serialize_doc rt d)"
proof (induction ps)
  case Nil
  then show ?case by simp
next
  case (Cons r ps)
  show ?case
  proof (cases "r = p")
    case True
    with Cons.prems show ?thesis by (simp add: truthy_found [of db p k i q d])
  next
    case False
    with Cons.prems have "find_one db r ((k, VOid i) # q) = None" by simp
    moreover have "find_worker_in rt db ((k, VOid i) # q) ps = Some (serialize_doc rt d)"
      using Cons.prems False by (intro Cons.IH) auto
    ultimately show ?thesis by (simp add: truthy_doc_def)
  qed
qed

lemma find_worker_in_some:
  "list_ex (\<lambda>p. find_one db p ((k, VOid i) # q) \<noteq> None) ps
     \<Longrightarrow> \<exists>p d. p \<in> set ps \<and> find_one db p ((k, VOid i) # q) = Some d
           \<and> find_worker_in rt db ((k, VOid i) # q) ps = Some (serialize_doc rt d)"
proof (induction ps)
  case Nil
  then show ?case by simp
next
  case (Cons r ps)
  show ?case
  proof (cases "find_one db r ((k, VOid i) # q)")
    case None
    with Cons.prems have "list_ex (\<lambda>p. find_one db p ((k, VOid i) # q) \<noteq> None) ps" by simp
    from Cons.IH [OF this] None show ?thesis
      by (auto simp: truthy_doc_def)
  next
    case (Some d)
    then have "find_worker_in rt db ((k, VOid i) # q) (r # ps) = Some (serialize_doc rt d)"
      by (simp add: truthy_found [of db r k i q d])
    with Some show ?thesis by auto
  qed
qed

lemma worker_records_empty:
  "worker_records db uid = [] \<longleftrightarrow>
     list_all (\<lambda>p. find_one db p [(''user_id'', uid)] = None) get_all_worker_partitions"
  by (auto simp: worker_records_def list_all_iff find_one_def find_None_iff filter_empty_conv)

lemma concat_single:
  "distinct xs \<Longrightarrow> p \<in> set xs \<Longrightarrow> \<forall>r\<in>set xs. r \<noteq> p \<longrightarrow> f r = [] \<Longrightarrow> concat (map f xs) = f p"
proof (induction xs)
  case Nil
  then show ?case by simp
next
  case (Cons x xs)
  show ?case
  proof (cases "x = p")
    case True
    with Cons.prems have "\<forall>r\<in>set xs. f r = []" by auto
    then have "concat (map f xs) = []" by simp
    with True show ?thesis by simp
  next
    case False
    with Cons.prems have "f x = []" and "concat (map f xs) = f p"
      using Cons.IH by auto
    then show ?thesis by simp
  qed
qed

lemma distinct_worker_partitions: "distinct get_all_worker_partitions"
  by (simp add: all_worker_partitions_eq)

lemma list_ex_matches_id:
  "list_ex (matches [(''_id'', VOid i)]) xs = list_ex (\<lambda>d. map_of d ''_id'' = Some (VOid i)) xs"
  by (simp add: list_ex_iff matches_id)

lemma ensure_worker_row_creates:
  assumes uid: "str_to_object_id rt user_id = Inr (VOid u)"
    and none: "worker_records db (VOid u) = []"
    and fresh: "list_all (\<lambda>name. \<not> list_ex (\<lambda>d. map_of d ''_id'' = Some (VOid fresh))
                                   (get_collection db name))
                  (''workers'' # get_all_worker_partitions)"
    and stored: "stored = [(''_id'', VOid fresh), (''user_id'', VOid u), (''full_name'', VStr full_name),
         (''skills'', VStr skills), (''phone'', VStr []), (''location'', VStr []),
         (''experience'', VStr []), (''created_at'', VTime (fst now, snd now div 1000 * 1000))]"
    and p: "p = get_worker_partition_collection rt (VOid fresh)"
  shows "ensure_worker_row rt fresh now db user_id full_name skills
     = (Inr [(''worker_id'', VStr (py_str rt (VOid fresh))), (''user_id'', VStr (py_str rt (VOid u)))],
        AList.update ''workers'' (get_collection db ''workers'')
          (AList.update p (get_collection db p @ [stored])
             (AList.update ''workers'' (get_collection db ''workers'' @ [stored]) db)))"
proof -
  define ws where "ws = get_collection db ''workers''"
  define inserted where "inserted = [(''_id'', VOid fresh), (''user_id'', VOid u),
         (''full_name'', VStr full_name), (''skills'', VStr skills), (''phone'', VStr []),
         (''location'', VStr []), (''experience'', VStr []), (''created_at'', VTime now)]"
  define db1 where "db1 = AList.update ''workers'' (ws @ [stored]) db"
  define db2 where "db2 = AList.update p (get_collection db p @ [stored]) db1"
  have p_in: "p \<in> set get_all_worker_partitions"
    unfolding p by (rule partition_collection_listed)
  then have p_ne: "p \<noteq> ''workers''"
    by (rule partition_not_workers)
  have absent: "find_worker_in_partitions rt db [(''user_id'', VOid u)] = None"
    using none unfolding worker_records_empty find_worker_in_partitions_def
    by (rule find_worker_in_none)
  have fresh_ws: "\<not> list_ex (\<lambda>d. map_of d ''_id'' = Some (VOid fresh)) ws"
    using fresh by (simp add: ws_def)
  have fresh_p: "\<not> list_ex (\<lambda>d. map_of d ''_id'' = Some (VOid fresh)) (get_collection db p)"
    using fresh p_in by (simp add: list_all_iff)
  have ins1: "insert_one fresh db ''workers''
        [(''user_id'', VOid u), (''full_name'', VStr full_name), (''skills'', VStr skills),
         (''phone'', VStr []), (''location'', VStr []), (''experience'', VStr []),
         (''created_at'', VTime now)]
      = Inr (VOid fresh, inserted, db1)"
    using fresh_ws
    by (simp add: insert_one_fresh ws_def db1_def stored inserted_def bson_doc_def bson_value_def)
  have same: "AList.update ''_id'' (VOid fresh) inserted = inserted"
    by (simp add: inserted_def)
  have encoded: "bson_doc inserted = stored"
    by (simp add: inserted_def stored bson_doc_def bson_value_def)
  have coll1: "get_collection db1 p = get_collection db p"
    using p_ne by (simp add: db1_def get_collection_update)
  have ins2: "insert_one fresh db1 p inserted = Inr (VOid fresh, inserted, db2)"
  proof -
    have "map_of inserted ''_id'' = Some (VOid fresh)"
      by (simp add: inserted_def)
    moreover have "\<not> list_ex (\<lambda>d. map_of d ''_id'' = Some (VOid fresh)) (get_collection db1 p)"
      using fresh_p by (simp add: coll1)
    ultimately have "insert_one fresh db1 p inserted
        = Inr (VOid fresh, inserted, AList.update p (get_collection db1 p @ [bson_doc inserted]) db1)"
      by (rule insert_one_with_id)
    then show ?thesis
      by (simp add: coll1 encoded db2_def)
  qed
  have coll2: "get_collection db2 ''workers'' = ws @ [stored]"
    using p_ne by (simp add: db2_def db1_def get_collection_update)
  have del: "delete_one db2 ''workers'' [(''_id'', VOid fresh)] = (1, AList.update ''workers'' ws db2)"
    using coll2
  proof (rule delete_one_last)
    show "\<not> list_ex (matches [(''_id'', VOid fresh)]) ws"
      using fresh_ws by (simp add: list_ex_matches_id)
    show "matches [(''_id'', VOid fresh)] stored"
      by (simp add: matches_id stored)
  qed
  show ?thesis
    using uid absent ins1 ins2 del
    by (simp add: ensure_worker_row_def truthy_doc_def same p [symmetric] str_val_def
        db2_def db1_def ws_def)
qed

lemma ensure_worker_row_existing:
  assumes uid: "str_to_object_id rt user_id = Inr (VOid u)"
    and found: "find_worker_in_partitions rt db [(''user_id'', VOid u)] = Some s"
    and ident: "map_of (serialize_doc rt s) ''id'' = Some i"
    and nonempty: "s \<noteq> []"
  shows "ensure_worker_row rt fresh now db user_id full_name skills
     = (Inr (AList.update ''worker_id'' i (serialize_doc rt s)), db)"
  using assms by (simp add: ensure_worker_row_def truthy_doc_nonempty)

lemma serialize_new_worker:
  "serialize_doc rt [(''_id'', VOid fresh), (''user_id'', VOid u), (''full_name'', VStr full_name),
         (''skills'', VStr skills), (''phone'', VStr []), (''location'', VStr []),
         (''experience'', VStr []), (''created_at'', VTime now)]
   = [(''id'', VStr (py_str rt (VOid fresh))), (''user_id'', VStr (py_str rt (VOid u))),
      (''full_name'', VStr full_name), (''skills'', VStr skills), (''phone'', VStr []),
      (''location'', VStr []), (''experience'', VStr []), (''created_at'', VTime now)]"
  by (simp add: serialize_doc_def serialize_item_def str_val_def)

lemma serialize_serialized_worker:
  "map_of (serialize_doc rt [(''id'', VStr i), (''user_id'', VStr v),
      (''full_name'', VStr full_name), (''skills'', VStr skills), (''phone'', VStr []),
      (''location'', VStr []), (''experience'', VStr []), (''created_at'', VTime now)]) ''id''
   = Some (VStr i)"
  by (simp add: serialize_doc_def serialize_item_def str_val_def)

lemma no_record_no_match:
  assumes "worker_records db uid = []" and "p \<in> set get_all_worker_partitions"
  shows "filter (matches [(''user_id'', uid)]) (get_collection db p) = []"
  using assms by (auto simp: worker_records_def)

text \<open>
  C2. \<^verbatim>\<open>ensure_worker_row\<close> is idempotent. Start from a database in which the user
  has at most one worker record in the eight partitions, every stored record of the
  partitions has its \<^verbatim>\<open>_id\<close>, and the id the driver generates is not in use. Then
  two calls for the same user both return, with the same \<^verbatim>\<open>worker_id\<close>; the second
  call changes nothing; afterwards the partitions hold exactly one record for the user;
  and the unpartitioned \<^verbatim>\<open>workers\<close> collection is what it was before the calls, so
  no staging copy is left.
\<close>

theorem ensure_worker_row_idempotent:
  assumes uid: "str_to_object_id rt user_id = Inr (VOid u)"
    and fresh: "list_all (\<lambda>name. \<not> list_ex (\<lambda>d. map_of d ''_id'' = Some (VOid fresh))
                                   (get_collection db name))
                  (''workers'' # get_all_worker_partitions)"
    and ids: "list_all (\<lambda>name. list_all (\<lambda>d. map_of d ''_id'' \<noteq> None) (get_collection db name))
                get_all_worker_partitions"
    and one: "length (worker_records db (VOid u)) \<le> 1"
  shows "\<exists>w1 w2 db1.
       ensure_worker_row rt fresh now db user_id full_name skills = (Inr w1, db1)
     \<and> ensure_worker_row rt fresh' now' db1 user_id full_name' skills' = (Inr w2, db1)
     \<and> map_of w1 ''worker_id'' = map_of w2 ''worker_id''
     \<and> map_of w1 ''worker_id'' \<noteq> None
     \<and> length (worker_records db1 (VOid u)) = 1
     \<and> get_collection db1 ''workers'' = get_collection db ''workers''"
proof (cases "worker_records db (VOid u) = []")
  case True
  define stored where "stored = [(''_id'', VOid fresh), (''user_id'', VOid u),
         (''full_name'', VStr full_name), (''skills'', VStr skills), (''phone'', VStr []),
         (''location'', VStr []), (''experience'', VStr []),
         (''created_at'', VTime (fst now, snd now div 1000 * 1000))]"
  define p where "p = get_worker_partition_collection rt (VOid fresh)"
  define db1 where "db1 = AList.update ''workers'' (get_collection db ''workers'')
          (AList.update p (get_collection db p @ [stored])
             (AList.update ''workers'' (get_collection db ''workers'' @ [stored]) db))"
  let ?q = "[(''user_id'', VOid u)]"
  have p_in: "p \<in> set get_all_worker_partitions"
    unfolding p_def by (rule partition_collection_listed)
  then have p_ne: "p \<noteq> ''workers''"
    by (rule partition_not_workers)
  have first: "ensure_worker_row rt fresh now db user_id full_name skills
     = (Inr [(''worker_id'', VStr (py_str rt (VOid fresh))), (''user_id'', VStr (py_str rt (VOid u)))], db1)"
    unfolding db1_def by (rule ensure_worker_row_creates [OF uid True fresh stored_def p_def])
  have staging: "get_collection db1 ''workers'' = get_collection db ''workers''"
    by (simp add: db1_def get_collection_update)
  have part: "get_collection db1 r = (if r = p then get_collection db p @ [stored] else get_collection db r)"
    if "r \<in> set get_all_worker_partitions" for r
    using that partition_not_workers [OF that] by (simp add: db1_def get_collection_update)
  have m: "matches ?q stored"
    by (simp add: matches_def field_is_def stored_def)
  have empty: "filter (matches ?q) (get_collection db r) = []"
    if "r \<in> set get_all_worker_partitions" for r
    using True that by (rule no_record_no_match)
  have "worker_records db1 (VOid u) = filter (matches ?q) (get_collection db1 p)"
    unfolding worker_records_def
    using distinct_worker_partitions p_in
  proof (rule concat_single)
    show "\<forall>r\<in>set get_all_worker_partitions. r \<noteq> p \<longrightarrow> filter (matches ?q) (get_collection db1 r) = []"
      using part empty by simp
  qed
  also have "\<dots> = [stored]"
    using part [OF p_in] empty [OF p_in] m by simp
  finally have count: "length (worker_records db1 (VOid u)) = 1"
    by simp
  have "find_worker_in rt db1 ?q get_all_worker_partitions = Some (serialize_doc rt stored)"
    using p_in
  proof (rule find_worker_in_hit_at)
    show "\<forall>r\<in>set get_all_worker_partitions. r \<noteq> p \<longrightarrow> find_one db1 r ?q = None"
      using part empty by (simp add: find_one_def find_None_iff filter_empty_conv)
    have "\<not> list_ex (matches ?q) (get_collection db p)"
      using empty [OF p_in] by (simp add: list_ex_iff filter_empty_conv)
    then show "find_one db1 p ?q = Some stored"
      using part [OF p_in] m by (simp add: find_one_def find_append_last)
  qed
  then have found: "find_worker_in_partitions rt db1 ?q = Some (serialize_doc rt stored)"
    by (simp add: find_worker_in_partitions_def)
  have "ensure_worker_row rt fresh' now' db1 user_id full_name' skills'
     = (Inr (AList.update ''worker_id'' (VStr (py_str rt (VOid fresh))) (serialize_doc rt (serialize_doc rt stored))), db1)"
    using uid found
  proof (rule ensure_worker_row_existing)
    show "map_of (serialize_doc rt (serialize_doc rt stored)) ''id'' = Some (VStr (py_str rt (VOid fresh)))"
      unfolding stored_def serialize_new_worker by (rule serialize_serialized_worker)
    show "serialize_doc rt stored \<noteq> []"
      unfolding stored_def serialize_new_worker by simp
  qed
  with first count staging show ?thesis
    by (simp add: update_conv')
next
  case False
  let ?q = "[(''user_id'', VOid u)]"
  from False have "list_ex (\<lambda>p. find_one db p ?q \<noteq> None) get_all_worker_partitions"
    by (simp add: worker_records_empty list_ex_iff list_all_iff)
  then obtain p d where p: "p \<in> set get_all_worker_partitions"
      and d: "find_one db p ?q = Some d"
      and hit: "find_worker_in rt db ?q get_all_worker_partitions = Some (serialize_doc rt d)"
    using find_worker_in_some by blast
  from d have "d \<in> set (get_collection db p)"
    by (auto simp: find_one_def find_Some_iff)
  with ids p obtain v where "map_of d ''_id'' = Some v"
    by (auto simp: list_all_iff)
  then obtain i where i: "map_of (serialize_doc rt d) ''id'' = Some i"
    using serialize_has_id by blast
  then obtain i' where i': "map_of (serialize_doc rt (serialize_doc rt d)) ''id'' = Some i'"
    using serialize_keeps_key [of "serialize_doc rt d" "''id''" i rt] by auto
  from i have ne: "serialize_doc rt d \<noteq> []" by auto
  from hit have found: "find_worker_in_partitions rt db ?q = Some (serialize_doc rt d)"
    by (simp add: find_worker_in_partitions_def)
  have "ensure_worker_row rt f n db user_id fn sk
     = (Inr (AList.update ''worker_id'' i' (serialize_doc rt (serialize_doc rt d))), db)" for f n fn sk
    using uid found i' ne by (rule ensure_worker_row_existing)
  moreover from False one have "length (worker_records db (VOid u)) = 1"
    by (cases "worker_records db (VOid u)") auto
  ultimately show ?thesis
    by (simp add: update_conv')
qed

theorem ensure_worker_row_idempotent_witness:
  "str_to_object_id sample_rt (VOid (ObjectId 9)) = Inr (VOid (ObjectId 9))
   \<and> list_all (\<lambda>name. \<not> list_ex (\<lambda>d. map_of d ''_id'' = Some (VOid (ObjectId 52)))
                          (get_collection sample_workers_db name))
        (''workers'' # get_all_worker_partitions)
   \<and> list_all (\<lambda>name. list_all (\<lambda>d. map_of d ''_id'' \<noteq> None) (get_collection sample_workers_db name))
        get_all_worker_partitions
   \<and> length (worker_records sample_workers_db (VOid (ObjectId 9))) \<le> 1
   \<and> (\<exists>w1 w2 db1.
         ensure_worker_row sample_rt (ObjectId 52) (2025, 1) sample_workers_db (VOid (ObjectId 9))
           ''Ravi'' ''sql'' = (Inr w1, db1)
       \<and> ensure_worker_row sample_rt (ObjectId 53) (2025, 2) db1 (VOid (ObjectId 9))
           ''Ravi'' ''sql'' = (Inr w2, db1)
       \<and> map_of w1 ''worker_id'' = map_of w2 ''worker_id''
       \<and> map_of w1 ''worker_id'' \<noteq> None
       \<and> length (worker_records db1 (VOid (ObjectId 9))) = 1
       \<and> get_collection db1 ''workers'' = get_collection sample_workers_db ''workers'')"
proof -
  have fresh: "list_all (\<lambda>name. \<not> list_ex (\<lambda>d. map_of d ''_id'' = Some (VOid (ObjectId 52)))
                          (get_collection sample_workers_db name))
        (''workers'' # get_all_worker_partitions)"
    by (simp add: all_worker_partitions_eq get_collection_def sample_workers_db_def sample_worker_def)
  have ids: "list_all (\<lambda>name. list_all (\<lambda>d. map_of d ''_id'' \<noteq> None) (get_collection sample_workers_db name))
        get_all_worker_partitions"
    by (simp add: all_worker_partitions_eq get_collection_def sample_workers_db_def sample_worker_def)
  have one: "length (worker_records sample_workers_db (VOid (ObjectId 9))) \<le> 1"
    by (simp add: worker_records_def all_worker_partitions_eq get_collection_def
        sample_workers_db_def sample_worker_def matches_def field_is_def)
  note run = ensure_worker_row_idempotent [OF sample_ids(1) fresh ids one,
      where now = "(2025, 1)" and full_name = "''Ravi''" and skills = "''sql''"
        and fresh' = "ObjectId 53" and now' = "(2025, 2)" and full_name' = "''Ravi''"
        and skills' = "''sql''"]
  show ?thesis
    using sample_ids(1) [of "ObjectId 9"] fresh ids one run by (intro conjI)
qed

subsection \<open>Runs on the sample data\<close>

lemmas sample_eval =
  str_to_object_id_def find_worker_in_partitions_def all_worker_partitions_eq
  find_one_def get_collection_def truthy_doc_def insert_one_def dict_get_def Let_def
  get_worker_partition_collection_def hash_partition_def sample_rt_def str_val_def sample_str_def
  str_int_def delete_one_def matches_def field_is_def sample_parse_oid_def is_digit_def
  serialize_doc_def serialize_item_def bson_doc_def bson_value_def

lemma sample_posted:
  "post_job sample_rt (ObjectId 106) (2025, 900) sample_users_db (VStr ''20'') sample_job_data
     = (Inr (VOid (ObjectId 106)),
        [(''users'', [[(''_id'', VOid (ObjectId 1)), (''email'', VStr ''asha@example.org''),
                       (''role'', VStr ''worker'')]]),
         (''jobs_2025'',
            [[(''_id'', VOid (ObjectId 106)), (''employer_id'', VOid (ObjectId 20)),
              (''title'', VStr ''Tester''), (''required_skills'', VStr ''Python''),
              (''description'', VStr []), (''salary_min'', VNum 5000), (''salary_max'', VNum 1000),
              (''location'', VStr []), (''status'', VStr ''open''),
              (''posted_at'', VTime (2025, 0)), (''created_at'', VTime (2025, 0))]])])"
  by (simp add: post_job_def salary_value_def sample_float_def sample_job_data_def sample_users_db_def
      get_jobs_partition_collection_def sample_eval)

subsection \<open>Deleting a user\<close>

text \<open>
  C3 (the cascade to the worker profile). \<^verbatim>\<open>delete_user\<close> deletes from the
  unpartitioned \<^verbatim>\<open>workers\<close> collection, while \<^verbatim>\<open>ensure_worker_row\<close> keeps the
  worker record in the partition of its hash. On the sample database: the row of user 1 is
  created in \<^verbatim>\<open>workers_partition_3\<close>; \<^verbatim>\<open>delete_user\<close> then returns 1 and removes the
  user, and the worker record of user 1 is still in \<^verbatim>\<open>workers_partition_3\<close>.
\<close>

theorem delete_user_leaves_worker_record:
  "ensure_worker_row sample_rt (ObjectId 12) (2025, 1) sample_users_db (VOid (ObjectId 1))
       ''Asha'' ''Python, React''
     = (Inr [(''worker_id'', VStr ''12''), (''user_id'', VStr ''1'')],
        [(''users'', [[(''_id'', VOid (ObjectId 1)), (''email'', VStr ''asha@example.org''),
                       (''role'', VStr ''worker'')]]),
         (''workers'', []),
         (''workers_partition_3'',
            [[(''_id'', VOid (ObjectId 12)), (''user_id'', VOid (ObjectId 1)),
              (''full_name'', VStr ''Asha''), (''skills'', VStr ''Python, React''),
              (''phone'', VStr []), (''location'', VStr []), (''experience'', VStr []),
              (''created_at'', VTime (2025, 0))]])])
   \<and> delete_user sample_rt
        (snd (ensure_worker_row sample_rt (ObjectId 12) (2025, 1) sample_users_db
                (VOid (ObjectId 1)) ''Asha'' ''Python, React''))
        (VOid (ObjectId 1))
     = (Inr 1,
        [(''users'', []),
         (''workers'', []),
         (''workers_partition_3'',
            [[(''_id'', VOid (ObjectId 12)), (''user_id'', VOid (ObjectId 1)),
              (''full_name'', VStr ''Asha''), (''skills'', VStr ''Python, React''),
              (''phone'', VStr []), (''location'', VStr []), (''experience'', VStr []),
              (''created_at'', VTime (2025, 0))]])])
   \<and> length (worker_records
        (snd (delete_user sample_rt
                (snd (ensure_worker_row sample_rt (ObjectId 12) (2025, 1) sample_users_db
                        (VOid (ObjectId 1)) ''Asha'' ''Python, React''))
                (VOid (ObjectId 1))))
        (VOid (ObjectId 1))) = 1"
proof -
  have created: "ensure_worker_row sample_rt (ObjectId 12) (2025, 1) sample_users_db (VOid (ObjectId 1))
       ''Asha'' ''Python, React''
     = (Inr [(''worker_id'', VStr ''12''), (''user_id'', VStr ''1'')],
        [(''users'', [[(''_id'', VOid (ObjectId 1)), (''email'', VStr ''asha@example.org''),
                       (''role'', VStr ''worker'')]]),
         (''workers'', []),
         (''workers_partition_3'',
            [[(''_id'', VOid (ObjectId 12)), (''user_id'', VOid (ObjectId 1)),
              (''full_name'', VStr ''Asha''), (''skills'', VStr ''Python, React''),
              (''phone'', VStr []), (''location'', VStr []), (''experience'', VStr []),
              (''created_at'', VTime (2025, 0))]])])"
    by (simp add: ensure_worker_row_def sample_users_db_def sample_eval)
  show ?thesis
    unfolding created by (simp add: delete_user_def worker_records_def sample_eval)
qed

subsection \<open>The partition tag in two processes\<close>

lemma sample_registered:
  "registered_db =
     [(''users'', [[(''_id'', VOid (ObjectId 1)), (''email'', VStr ''asha@example.org''),
                    (''role'', VStr ''worker'')]]),
      (''workers'', []),
      (''workers_partition_3'',
         [[(''_id'', VOid (ObjectId 12)), (''user_id'', VOid (ObjectId 1)),
           (''full_name'', VStr ''Asha''), (''skills'', VStr ''Python, React''),
           (''phone'', VStr []), (''location'', VStr []), (''experience'', VStr []),
           (''created_at'', VTime (2025, 0))]])]"
  by (simp add: registered_db_def ensure_worker_row_def sample_users_db_def sample_eval)

lemma sample_tags:
  "hash_partition sample_rt (VOid (ObjectId 12)) 8 = 3"
  "hash_partition restarted_rt (VOid (ObjectId 12)) 8 = 0"
  "get_worker_partition_collection sample_rt (VOid (ObjectId 12)) = ''workers_partition_3''"
  "get_worker_partition_collection restarted_rt (VOid (ObjectId 12)) = ''workers_partition_0''"
  by (simp_all add: get_worker_partition_collection_def hash_partition_def sample_rt_def
      restarted_rt_def str_val_def sample_str_def str_int_def)

text \<open>
  C9 (the partition tag of a worker id is stable). \<^verbatim>\<open>hash_partition\<close> takes the
  builtin \<^verbatim>\<open>hash\<close> of the id's string, and that hash is salted per process. For the
  worker id 12 the first process computes the tag 3 and the second process the tag 0,
  both in \<open>[0, 8)\<close>, so the same id resolves to \<^verbatim>\<open>workers_partition_3\<close> in one and to
  \<^verbatim>\<open>workers_partition_0\<close> in the other. The row that \<^verbatim>\<open>ensure_worker_row\<close> wrote in
  the first process is in \<^verbatim>\<open>workers_partition_3\<close>. There \<^verbatim>\<open>upsert_worker_profile\<close>
  of the first process finds and changes it (modified count 1); the same call in the
  second process addresses \<^verbatim>\<open>workers_partition_0\<close>, reports 0 and leaves the database
  as it was.
\<close>

theorem worker_partition_differs_between_processes:
  "hash_partition sample_rt (VOid (ObjectId 12)) 8 = 3
   \<and> hash_partition restarted_rt (VOid (ObjectId 12)) 8 = 0
   \<and> get_worker_partition_collection sample_rt (VOid (ObjectId 12)) = ''workers_partition_3''
   \<and> get_worker_partition_collection restarted_rt (VOid (ObjectId 12)) = ''workers_partition_0''
   \<and> find_one registered_db ''workers_partition_3'' [(''_id'', VOid (ObjectId 12))]
       = Some [(''_id'', VOid (ObjectId 12)), (''user_id'', VOid (ObjectId 1)),
               (''full_name'', VStr ''Asha''), (''skills'', VStr ''Python, React''),
               (''phone'', VStr []), (''location'', VStr []), (''experience'', VStr []),
               (''created_at'', VTime (2025, 0))]
   \<and> fst (upsert_worker_profile sample_rt (2025, 2000) registered_db (VOid (ObjectId 12))
             [(''full_name'', VStr ''Asha K''), (''skills'', VStr ''Python'')]) = Inr 1
   \<and> upsert_worker_profile restarted_rt (2025, 2000) registered_db (VOid (ObjectId 12))
        [(''full_name'', VStr ''Asha K''), (''skills'', VStr ''Python'')]
       = (Inr 0, registered_db)"
proof -
  have stored: "find_one registered_db ''workers_partition_3'' [(''_id'', VOid (ObjectId 12))]
       = Some [(''_id'', VOid (ObjectId 12)), (''user_id'', VOid (ObjectId 1)),
               (''full_name'', VStr ''Asha''), (''skills'', VStr ''Python, React''),
               (''phone'', VStr []), (''location'', VStr []), (''experience'', VStr []),
               (''created_at'', VTime (2025, 0))]"
    unfolding sample_registered
    by (simp add: find_one_def get_collection_def matches_def field_is_def)
  have first: "fst (upsert_worker_profile sample_rt (2025, 2000) registered_db (VOid (ObjectId 12))
             [(''full_name'', VStr ''Asha K''), (''skills'', VStr ''Python'')]) = Inr 1"
    unfolding sample_registered
    by (simp add: upsert_worker_profile_def update_one_def sample_tags str_to_object_id_def
        get_collection_def matches_def field_is_def set_fields_def bson_doc_def bson_value_def
        dict_get_def Let_def)
  have second: "upsert_worker_profile restarted_rt (2025, 2000) registered_db (VOid (ObjectId 12))
        [(''full_name'', VStr ''Asha K''), (''skills'', VStr ''Python'')]
       = (Inr 0, registered_db)"
    unfolding sample_registered
    by (simp add: upsert_worker_profile_def update_one_def sample_tags str_to_object_id_def
        get_collection_def)
  from sample_tags stored first second show ?thesis
    by (intro conjI)
qed

subsection \<open>Updating a job\<close>

text \<open>
  C4 (\<^verbatim>\<open>update_job\<close> and the owning partition). \<^verbatim>\<open>update_job\<close> looks the job up in
  the unpartitioned \<^verbatim>\<open>jobs\<close> collection and updates there, while \<^verbatim>\<open>post_job\<close>
  stores the job in \<^verbatim>\<open>jobs_<year>\<close>. On the sample database: the job posted in 2025
  is stored in \<^verbatim>\<open>jobs_2025\<close>, and \<^verbatim>\<open>update_job\<close> on its id raises
  \<^verbatim>\<open>ValueError("Job not found")\<close> and changes nothing.
\<close>

theorem update_job_misses_partitioned_job:
  "fst (post_job sample_rt (ObjectId 106) (2025, 900) sample_users_db (VStr ''20'') sample_job_data)
     = Inr (VOid (ObjectId 106))
   \<and> find_one (snd (post_job sample_rt (ObjectId 106) (2025, 900) sample_users_db (VStr ''20'')
                      sample_job_data))
        ''jobs_2025'' [(''_id'', VOid (ObjectId 106))]
     = Some [(''_id'', VOid (ObjectId 106)), (''employer_id'', VOid (ObjectId 20)),
             (''title'', VStr ''Tester''), (''required_skills'', VStr ''Python''),
             (''description'', VStr []), (''salary_min'', VNum 5000), (''salary_max'', VNum 1000),
             (''location'', VStr []), (''status'', VStr ''open''),
             (''posted_at'', VTime (2025, 0)), (''created_at'', VTime (2025, 0))]
   \<and> update_job sample_rt (2025, 901)
        (snd (post_job sample_rt (ObjectId 106) (2025, 900) sample_users_db (VStr ''20'')
                sample_job_data))
        (VOid (ObjectId 106)) [(''title'', VStr ''QA'')]
     = (Inl (ValueError ''Job not found''),
        snd (post_job sample_rt (ObjectId 106) (2025, 900) sample_users_db (VStr ''20'')
               sample_job_data))"
  unfolding sample_posted by (simp add: update_job_def sample_eval)

subsection \<open>Posting a job and reading it back\<close>

lemma digits_nonempty: "digits n \<noteq> []"
  by (induction n rule: digits.induct) (subst digits.simps, simp)

lemma jobs_partition_name:
  "startswith (get_jobs_partition_collection year) ''jobs_''"
  "get_jobs_partition_collection year \<noteq> ''jobs''"
  using digits_nonempty [of year]
  by (simp_all add: get_jobs_partition_collection_def str_int_def)

lemma serialize_item_other:
  "k \<noteq> ''_id'' \<Longrightarrow> serialize_item rt (k, v) = (k, serialize_value rt v)"
  by (simp add: serialize_item_def serialize_value_def split: val.splits)

lemma find_job_in_hit_at:
  "p \<in> set ps \<Longrightarrow> \<forall>r\<in>set ps. r \<noteq> p \<longrightarrow> find_one db r [(''_id'', VOid i)] = None
     \<Longrightarrow> find_one db p [(''_id'', VOid i)] = Some d
     \<Longrightarrow> map_of (serialize_doc rt d) ''id'' = Some v
     \<Longrightarrow> find_job_in rt db (VOid i) ps = Inr (Some (AList.update ''job_id'' v (serialize_doc rt d)))"
proof (induction ps)
  case Nil
  then show ?case by simp
next
  case (Cons r ps)
  show ?case
  proof (cases "r = p")
    case True
    with Cons.prems show ?thesis by (simp add: truthy_found [of db p "''_id''" i "[]" d])
  next
    case False
    with Cons.prems have "find_one db r [(''_id'', VOid i)] = None" by simp
    moreover have "find_job_in rt db (VOid i) ps = Inr (Some (AList.update ''job_id'' v (serialize_doc rt d)))"
      using Cons.prems False by (intro Cons.IH) auto
    ultimately show ?thesis by (simp add: truthy_doc_def)
  qed
qed

lemma names_update:
  "set (list_collection_names (AList.update k v db)) = insert k (set (list_collection_names db))"
  by (auto simp: list_collection_names_def update_keys)

lemma insert_one_new_id:
  assumes "insert_one fresh db name document = Inr (i, stored, db')"
      and "map_of document ''_id'' = None"
  shows "i = VOid fresh \<and> stored = (''_id'', VOid fresh) # document
       \<and> db' = AList.update name (get_collection db name @ [bson_doc stored]) db
       \<and> \<not> list_ex (\<lambda>d. map_of d ''_id'' = Some (VOid fresh)) (get_collection db name)"
  using assms by (auto simp: insert_one_def dict_get_def Let_def bson_value_def split: if_splits)

lemma bson_value_simps:
  "bson_value (VTime t) = VTime (fst t, snd t div 1000 * 1000)"
  "bson_value (VOid i) = VOid i"
  "bson_value (VStr x) = VStr x"
  "bson_value (VNum r) = VNum r"
  "bson_value (VBool b) = VBool b"
  "bson_value VNone = VNone"
  by (simp_all add: bson_value_def)

lemma plain_value_read_back:
  "serialize_value rt (bson_value (VStr x)) = VStr x"
  "serialize_value rt (bson_value (VNum r)) = VNum r"
  "serialize_value rt (bson_value (VBool b)) = VBool b"
  "serialize_value rt (bson_value VNone) = VNone"
  by (simp_all add: bson_value_def serialize_value_def)

text \<open>
  C8, as the code has it. When \<^verbatim>\<open>post_job\<close> accepts the employer id and the data, and
  the generated id is in no job partition yet, \<^verbatim>\<open>get_job_by_id\<close> on the returned id
  returns the posted record: \<^verbatim>\<open>title\<close>, \<^verbatim>\<open>required_skills\<close>, \<^verbatim>\<open>description\<close> and
  \<^verbatim>\<open>location\<close> as supplied (the empty string when not supplied), each salary as
  \<^verbatim>\<open>float\<close> of the supplied value when that value is truthy and null otherwise, and
  \<^verbatim>\<open>status\<close> equal to \<^verbatim>\<open>"open"\<close>. The two salaries are stored independently: no
  order between them is checked. A value is read back as the store and
  \<^verbatim>\<open>serialize_doc\<close> render it (strings, numbers, booleans and null unchanged, by
  \<open>plain_value_read_back\<close>; an ObjectId as its string; a datetime in whole
  milliseconds, so \<^verbatim>\<open>posted_at\<close> is the posting time without its microseconds).
\<close>

theorem post_job_round_trip:
  assumes posted: "post_job rt fresh now db employer_id data = (Inr job_id, db')"
    and fresh: "list_all (\<lambda>p. \<not> list_ex (\<lambda>d. map_of d ''_id'' = Some (VOid fresh)) (get_collection db p))
                  (get_all_job_partitions db)"
  shows "\<exists>eid smin smax.
       str_to_object_id rt employer_id = Inr eid
     \<and> salary_value rt data ''salary_min'' = Inr smin
     \<and> salary_value rt data ''salary_max'' = Inr smax
     \<and> get_job_by_id rt db' job_id
         = Inr (Some [(''id'', VStr (py_str rt (VOid fresh))),
                      (''employer_id'', serialize_value rt (bson_value eid)),
                      (''title'', serialize_value rt (bson_value (dict_get data ''title'' (VStr [])))),
                      (''required_skills'',
                         serialize_value rt (bson_value (dict_get data ''required_skills'' (VStr [])))),
                      (''description'',
                         serialize_value rt (bson_value (dict_get data ''description'' (VStr [])))),
                      (''salary_min'', serialize_value rt (bson_value smin)),
                      (''salary_max'', serialize_value rt (bson_value smax)),
                      (''location'', serialize_value rt (bson_value (dict_get data ''location'' (VStr [])))),
                      (''status'', VStr ''open''),
                      (''posted_at'', VTime (fst now, snd now div 1000 * 1000)),
                      (''created_at'', VTime (fst now, snd now div 1000 * 1000)),
                      (''job_id'', VStr (py_str rt (VOid fresh)))])"
proof -
  define pc where "pc = get_jobs_partition_collection (fst now)"
  from posted obtain eid smin smax i stored
    where eid: "str_to_object_id rt employer_id = Inr eid"
      and smin: "salary_value rt data ''salary_min'' = Inr smin"
      and smax: "salary_value rt data ''salary_max'' = Inr smax"
      and ins: "insert_one fresh db pc
          [(''employer_id'', eid),
           (''title'', dict_get data ''title'' (VStr [])),
           (''required_skills'', dict_get data ''required_skills'' (VStr [])),
           (''description'', dict_get data ''description'' (VStr [])),
           (''salary_min'', smin), (''salary_max'', smax),
           (''location'', dict_get data ''location'' (VStr [])),
           (''status'', VStr ''open''), (''posted_at'', VTime now), (''created_at'', VTime now)]
          = Inr (i, stored, db')"
      and jid: "job_id = i"
    by (auto simp: post_job_def Let_def pc_def split: sum.splits)
  from insert_one_new_id [OF ins]
  have i: "i = VOid fresh"
    and stored: "stored = [(''_id'', VOid fresh), (''employer_id'', eid),
           (''title'', dict_get data ''title'' (VStr [])),
           (''required_skills'', dict_get data ''required_skills'' (VStr [])),
           (''description'', dict_get data ''description'' (VStr [])),
           (''salary_min'', smin), (''salary_max'', smax),
           (''location'', dict_get data ''location'' (VStr [])),
           (''status'', VStr ''open''), (''posted_at'', VTime now), (''created_at'', VTime now)]"
    and db': "db' = AList.update pc (get_collection db pc @ [bson_doc stored]) db"
    and nodup: "\<not> list_ex (\<lambda>d. map_of d ''_id'' = Some (VOid fresh)) (get_collection db pc)"
    by simp_all
  have enc: "bson_doc stored
      = [(''_id'', VOid fresh), (''employer_id'', bson_value eid),
         (''title'', bson_value (dict_get data ''title'' (VStr []))),
         (''required_skills'', bson_value (dict_get data ''required_skills'' (VStr []))),
         (''description'', bson_value (dict_get data ''description'' (VStr []))),
         (''salary_min'', bson_value smin), (''salary_max'', bson_value smax),
         (''location'', bson_value (dict_get data ''location'' (VStr []))),
         (''status'', VStr ''open''),
         (''posted_at'', VTime (fst now, snd now div 1000 * 1000)),
         (''created_at'', VTime (fst now, snd now div 1000 * 1000))]"
    by (simp add: stored bson_doc_def bson_value_simps)
  have ser: "serialize_doc rt (bson_doc stored)
      = [(''id'', VStr (py_str rt (VOid fresh))),
         (''employer_id'', serialize_value rt (bson_value eid)),
         (''title'', serialize_value rt (bson_value (dict_get data ''title'' (VStr [])))),
         (''required_skills'', serialize_value rt (bson_value (dict_get data ''required_skills'' (VStr [])))),
         (''description'', serialize_value rt (bson_value (dict_get data ''description'' (VStr [])))),
         (''salary_min'', serialize_value rt (bson_value smin)),
         (''salary_max'', serialize_value rt (bson_value smax)),
         (''location'', serialize_value rt (bson_value (dict_get data ''location'' (VStr [])))),
         (''status'', VStr ''open''),
         (''posted_at'', VTime (fst now, snd now div 1000 * 1000)),
         (''created_at'', VTime (fst now, snd now div 1000 * 1000))]"
    unfolding enc
    by (simp add: serialize_doc_def serialize_item_other)
       (simp add: serialize_item_def str_val_def serialize_value_def)
  have pc_in: "pc \<in> set (get_all_job_partitions db')"
    using jobs_partition_name [of "fst now"]
    by (simp add: get_all_job_partitions_def db' names_update pc_def)
  have others: "\<forall>r\<in>set (get_all_job_partitions db'). r \<noteq> pc \<longrightarrow> find_one db' r [(''_id'', VOid fresh)] = None"
  proof (intro ballI impI)
    fix r assume r: "r \<in> set (get_all_job_partitions db')" and ne: "r \<noteq> pc"
    then have "r \<in> set (get_all_job_partitions db)"
      by (auto simp: get_all_job_partitions_def db' names_update)
    with fresh have "\<not> list_ex (\<lambda>d. map_of d ''_id'' = Some (VOid fresh)) (get_collection db r)"
      by (simp add: list_all_iff)
    then show "find_one db' r [(''_id'', VOid fresh)] = None"
      using ne by (simp add: find_one_def db' get_collection_update find_None_iff list_ex_iff matches_id)
  qed
  have here: "find_one db' pc [(''_id'', VOid fresh)] = Some (bson_doc stored)"
  proof -
    have "\<not> list_ex (matches [(''_id'', VOid fresh)]) (get_collection db pc)"
      using nodup by (simp add: list_ex_matches_id)
    moreover have "matches [(''_id'', VOid fresh)] (bson_doc stored)"
      by (simp add: matches_id enc)
    ultimately show ?thesis
      by (simp add: find_one_def db' get_collection_update find_append_last)
  qed
  have "find_job_in rt db' (VOid fresh) (get_all_job_partitions db')
      = Inr (Some (AList.update ''job_id'' (VStr (py_str rt (VOid fresh)))
                     (serialize_doc rt (bson_doc stored))))"
    using pc_in others here
  proof (rule find_job_in_hit_at)
    show "map_of (serialize_doc rt (bson_doc stored)) ''id'' = Some (VStr (py_str rt (VOid fresh)))"
      by (simp add: ser)
  qed
  then have "get_job_by_id rt db' job_id
      = Inr (Some (AList.update ''job_id'' (VStr (py_str rt (VOid fresh)))
                     (serialize_doc rt (bson_doc stored))))"
    by (simp add: get_job_by_id_def jid i str_to_object_id_def)
  with eid smin smax show ?thesis
    by (simp add: ser)
qed

theorem post_job_round_trip_witness:
  "post_job sample_rt (ObjectId 106) (2025, 900) sample_db (VStr ''20'') sample_job_data
     = (Inr (VOid (ObjectId 106)),
        snd (post_job sample_rt (ObjectId 106) (2025, 900) sample_db (VStr ''20'') sample_job_data))
   \<and> list_all (\<lambda>p. \<not> list_ex (\<lambda>d. map_of d ''_id'' = Some (VOid (ObjectId 106)))
                       (get_collection sample_db p))
        (get_all_job_partitions sample_db)
   \<and> (\<exists>eid smin smax.
       str_to_object_id sample_rt (VStr ''20'') = Inr eid
     \<and> salary_value sample_rt sample_job_data ''salary_min'' = Inr smin
     \<and> salary_value sample_rt sample_job_data ''salary_max'' = Inr smax
     \<and> get_job_by_id sample_rt
          (snd (post_job sample_rt (ObjectId 106) (2025, 900) sample_db (VStr ''20'') sample_job_data))
          (VOid (ObjectId 106))
         = Inr (Some [(''id'', VStr (py_str sample_rt (VOid (ObjectId 106)))),
                      (''employer_id'', serialize_value sample_rt (bson_value eid)),
                      (''title'',
                         serialize_value sample_rt (bson_value (dict_get sample_job_data ''title'' (VStr [])))),
                      (''required_skills'',
                         serialize_value sample_rt
                           (bson_value (dict_get sample_job_data ''required_skills'' (VStr [])))),
                      (''description'',
                         serialize_value sample_rt
                           (bson_value (dict_get sample_job_data ''description'' (VStr [])))),
                      (''salary_min'', serialize_value sample_rt (bson_value smin)),
                      (''salary_max'', serialize_value sample_rt (bson_value smax)),
                      (''location'',
                         serialize_value sample_rt (bson_value (dict_get sample_job_data ''location'' (VStr [])))),
                      (''status'', VStr ''open''),
                      (''posted_at'', VTime (2025, 0)),
                      (''created_at'', VTime (2025, 0)),
                      (''job_id'', VStr (py_str sample_rt (VOid (ObjectId 106))))]))"
proof -
  have "fst (post_job sample_rt (ObjectId 106) (2025, 900) sample_db (VStr ''20'') sample_job_data)
      = Inr (VOid (ObjectId 106))"
    by (simp add: post_job_def salary_value_def sample_float_def sample_job_data_def sample_db_def
        sample_job_def get_jobs_partition_collection_def sample_eval)
  then have posted: "post_job sample_rt (ObjectId 106) (2025, 900) sample_db (VStr ''20'') sample_job_data
     = (Inr (VOid (ObjectId 106)),
        snd (post_job sample_rt (ObjectId 106) (2025, 900) sample_db (VStr ''20'') sample_job_data))"
    by (metis prod.collapse)
  have fresh: "list_all (\<lambda>p. \<not> list_ex (\<lambda>d. map_of d ''_id'' = Some (VOid (ObjectId 106)))
                       (get_collection sample_db p))
        (get_all_job_partitions sample_db)"
    by (simp add: get_all_job_partitions_def list_collection_names_def sample_db_def sample_job_def
        get_collection_def)
  have "snd (2025 :: nat, 900 :: nat) div 1000 * 1000 = 0" and "fst (2025 :: nat, 900 :: nat) = 2025"
    by simp_all
  with post_job_round_trip [OF posted fresh] posted fresh show ?thesis
    by (intro conjI) (simp_all only:)
qed

text \<open>
  Two runs on the sample database: a posting with \<^verbatim>\<open>salary_min = 5000\<close> and
  \<^verbatim>\<open>salary_max = 1000\<close> is accepted and read back with both values, so the record does not
  satisfy \<^verbatim>\<open>salary_min \<le> salary_max\<close>; and a posting with \<^verbatim>\<open>salary_min = 0\<close> is read
  back with a null \<^verbatim>\<open>salary_min\<close>.
\<close>

theorem post_job_round_trip_counterexample:
  "fst (post_job sample_rt (ObjectId 106) (2025, 900) sample_users_db (VStr ''20'') sample_job_data)
     = Inr (VOid (ObjectId 106))
   \<and> get_job_by_id sample_rt
        (snd (post_job sample_rt (ObjectId 106) (2025, 900) sample_users_db (VStr ''20'')
                sample_job_data))
        (VOid (ObjectId 106))
     = Inr (Some [(''id'', VStr ''106''), (''employer_id'', VStr ''20''),
                  (''title'', VStr ''Tester''), (''required_skills'', VStr ''Python''),
                  (''description'', VStr []), (''salary_min'', VNum 5000),
                  (''salary_max'', VNum 1000), (''location'', VStr []), (''status'', VStr ''open''),
                  (''posted_at'', VTime (2025, 0)), (''created_at'', VTime (2025, 0)),
                  (''job_id'', VStr ''106'')])
   \<and> \<not> salary_ordered
          [(''id'', VStr ''106''), (''employer_id'', VStr ''20''),
           (''title'', VStr ''Tester''), (''required_skills'', VStr ''Python''),
           (''description'', VStr []), (''salary_min'', VNum 5000),
           (''salary_max'', VNum 1000), (''location'', VStr []), (''status'', VStr ''open''),
           (''posted_at'', VTime (2025, 0)), (''created_at'', VTime (2025, 0)),
           (''job_id'', VStr ''106'')]
   \<and> get_job_by_id sample_rt
        (snd (post_job sample_rt (ObjectId 107) (2025, 900) sample_users_db (VStr ''20'')
                [(''title'', VStr ''Tester''), (''salary_min'', VNum 0), (''salary_max'', VNum 1000)]))
        (VOid (ObjectId 107))
     = Inr (Some [(''id'', VStr ''107''), (''employer_id'', VStr ''20''),
                  (''title'', VStr ''Tester''), (''required_skills'', VStr []),
                  (''description'', VStr []), (''salary_min'', VNone),
                  (''salary_max'', VNum 1000), (''location'', VStr []), (''status'', VStr ''open''),
                  (''posted_at'', VTime (2025, 0)), (''created_at'', VTime (2025, 0)),
                  (''job_id'', VStr ''107'')])"
proof -
  have zero: "post_job sample_rt (ObjectId 107) (2025, 900) sample_users_db (VStr ''20'')
                [(''title'', VStr ''Tester''), (''salary_min'', VNum 0), (''salary_max'', VNum 1000)]
     = (Inr (VOid (ObjectId 107)),
        [(''users'', [[(''_id'', VOid (ObjectId 1)), (''email'', VStr ''asha@example.org''),
                       (''role'', VStr ''worker'')]]),
         (''jobs_2025'',
            [[(''_id'', VOid (ObjectId 107)), (''employer_id'', VOid (ObjectId 20)),
              (''title'', VStr ''Tester''), (''required_skills'', VStr []),
              (''description'', VStr []), (''salary_min'', VNone), (''salary_max'', VNum 1000),
              (''location'', VStr []), (''status'', VStr ''open''),
              (''posted_at'', VTime (2025, 0)), (''created_at'', VTime (2025, 0))]])])"
    by (simp add: post_job_def salary_value_def sample_float_def sample_users_db_def
        get_jobs_partition_collection_def sample_eval)
  show ?thesis
    unfolding sample_posted zero
    by (simp add: get_job_by_id_def get_all_job_partitions_def list_collection_names_def
        salary_ordered_def sample_eval)
qed

subsection \<open>Descending sorts and the cap\<close>

lemma descending_unique:
  fixes xs ys :: "'a::linorder list"
  assumes "sorted_wrt (\<ge>) xs" and "sorted_wrt (\<ge>) ys" and "mset xs = mset ys"
  shows "xs = ys"
proof -
  have "sorted (rev xs)" and "sorted (rev ys)"
    using assms(1,2) by (simp_all add: sorted_wrt_rev)
  moreover have "mset (rev xs) = mset (rev ys)"
    using assms(3) by simp
  ultimately have "sort (rev ys) = rev xs" and "sort (rev ys) = rev ys"
    by (auto intro: properties_for_sort)
  then show ?thesis by simp
qed

lemma descending_rev_sort: "sorted_wrt (\<ge>) (rev (sort (xs :: 'a::linorder list)))"
  by (simp add: sorted_wrt_rev)

lemma sort_desc_mset: "mset (sort_desc k xs) = mset xs"
  by (simp add: sort_desc_def)

lemma sort_desc_length: "length (sort_desc k xs) = length xs"
  by (simp add: sort_desc_def)

lemma sort_desc_set: "set (sort_desc k xs) = set xs"
  by (simp add: sort_desc_def)

lemma sort_desc_descending: "sorted_wrt (\<ge>) (map k (sort_desc k xs))"
  by (simp add: sort_desc_def rev_map [symmetric] sorted_wrt_rev)

lemma sort_desc_keys: "map k (sort_desc k xs) = rev (sort (map k xs))"
proof (rule descending_unique)
  show "sorted_wrt (\<ge>) (map k (sort_desc k xs))" by (rule sort_desc_descending)
  show "sorted_wrt (\<ge>) (rev (sort (map k xs)))" by (rule descending_rev_sort)
  show "mset (map k (sort_desc k xs)) = mset (rev (sort (map k xs)))"
    by (simp add: sort_desc_mset)
qed

lemma merge_desc_mset: "mset (merge_desc xs ys) = mset xs + mset ys"
  by (induction xs ys rule: merge_desc.induct) auto

lemma merge_desc_set: "set (merge_desc xs ys) = set xs \<union> set ys"
  by (induction xs ys rule: merge_desc.induct) auto

lemma merge_desc_descending:
  "sorted_wrt (\<ge>) xs \<Longrightarrow> sorted_wrt (\<ge>) ys \<Longrightarrow> sorted_wrt (\<ge>) (merge_desc xs ys)"
  by (induction xs ys rule: merge_desc.induct) (auto simp: merge_desc_set)

lemma merge_desc_empty: "merge_desc xs [] = xs"
  by (cases xs) simp_all

lemma merge_desc_take:
  "n \<le> m \<Longrightarrow> take n (merge_desc (take m xs) ys) = take n (merge_desc xs ys)"
proof (induction xs ys arbitrary: n m rule: merge_desc.induct)
  case (1 bs)
  then show ?case by simp
next
  case (2 a as)
  then show ?case by (simp only: merge_desc_empty take_take min_absorb1)
next
  case (3 a as b bs)
  show ?case
  proof (cases n)
    case 0
    then show ?thesis by simp
  next
    case (Suc n')
    with "3.prems" obtain m' where m: "m = Suc m'" and le: "n' \<le> m'"
      by (cases m) auto
    show ?thesis
    proof (cases "b \<le> a")
      case True
      with "3.IH"(1) [OF True le] show ?thesis
        by (simp add: Suc m)
    next
      case False
      have "n' \<le> m" using le m by simp
      from "3.IH"(2) [OF False this] False show ?thesis
        by (simp add: Suc m)
    qed
  qed
qed

lemma sort_mset_eq: "mset xs = mset ys \<Longrightarrow> sort xs = sort (ys :: 'a::linorder list)"
  by (rule properties_for_sort) simp_all

lemma descending_append:
  fixes xs ys :: "'a::linorder list"
  assumes "sorted_wrt (\<ge>) xs"
  shows "rev (sort (xs @ ys)) = merge_desc xs (rev (sort ys))"
proof (rule descending_unique)
  show "sorted_wrt (\<ge>) (rev (sort (xs @ ys)))" by (rule descending_rev_sort)
  show "sorted_wrt (\<ge>) (merge_desc xs (rev (sort ys)))"
    using assms descending_rev_sort by (rule merge_desc_descending)
  show "mset (rev (sort (xs @ ys))) = mset (merge_desc xs (rev (sort ys)))"
    by (simp add: merge_desc_mset)
qed

lemma top_of_top_left:
  fixes xs ys :: "'a::linorder list"
  shows "take n (rev (sort (take n (rev (sort xs)) @ ys))) = take n (rev (sort (xs @ ys)))"
proof -
  have "sorted_wrt (\<ge>) (take n (rev (sort xs)))"
    using descending_rev_sort by (rule sorted_wrt_take)
  then have "rev (sort (take n (rev (sort xs)) @ ys)) = merge_desc (take n (rev (sort xs))) (rev (sort ys))"
    by (rule descending_append)
  moreover have "rev (sort (xs @ ys)) = merge_desc (rev (sort xs)) (rev (sort ys))"
  proof -
    have "sort (xs @ ys) = sort (rev (sort xs) @ ys)"
      by (rule sort_mset_eq) simp
    then show ?thesis
      using descending_append [OF descending_rev_sort, of xs ys] by simp
  qed
  ultimately show ?thesis
    by (simp add: merge_desc_take)
qed

lemma top_of_top_right:
  fixes xs ys :: "'a::linorder list"
  shows "take n (rev (sort (xs @ take n (rev (sort ys))))) = take n (rev (sort (xs @ ys)))"
proof -
  have "sort (xs @ take n (rev (sort ys))) = sort (take n (rev (sort ys)) @ xs)"
    by (rule sort_mset_eq) simp
  moreover have "sort (xs @ ys) = sort (ys @ xs)"
    by (rule sort_mset_eq) simp
  ultimately show ?thesis
    by (simp add: top_of_top_left)
qed

lemma top_of_tops:
  fixes K :: "'p \<Rightarrow> 'a::linorder list"
  shows "take n (rev (sort (concat (map (\<lambda>p. take n (rev (sort (K p)))) ps))))
       = take n (rev (sort (concat (map K ps))))"
proof (induction ps)
  case Nil
  then show ?case by simp
next
  case (Cons p ps)
  let ?C' = "concat (map (\<lambda>p. take n (rev (sort (K p)))) ps)"
  let ?C = "concat (map K ps)"
  have "take n (rev (sort (take n (rev (sort (K p))) @ ?C'))) = take n (rev (sort (K p @ ?C')))"
    by (rule top_of_top_left)
  also have "\<dots> = take n (rev (sort (K p @ take n (rev (sort ?C')))))"
    by (rule top_of_top_right [symmetric])
  also have "\<dots> = take n (rev (sort (K p @ take n (rev (sort ?C)))))"
    by (simp only: Cons.IH)
  also have "\<dots> = take n (rev (sort (K p @ ?C)))"
    by (rule top_of_top_right)
  finally show ?case by simp
qed

subsection \<open>What projection and serialization keep\<close>

lemma serialize_fold_lookup:
  assumes "k \<noteq> ''id''" and "k \<noteq> ''_id''"
  shows "map_of (foldl (\<lambda>result kv. AList.update (fst (serialize_item rt kv)) (snd (serialize_item rt kv)) result) acc d) k
     = (case map_of (rev d) k of Some v \<Rightarrow> Some (serialize_value rt v) | None \<Rightarrow> map_of acc k)"
proof (induction d arbitrary: acc)
  case Nil
  then show ?case by simp
next
  case (Cons x xs)
  obtain a b where x: "x = (a, b)" by (cases x)
  show ?case
  proof (cases "a = k")
    case True
    then have "map_of (AList.update (fst (serialize_item rt (a, b))) (snd (serialize_item rt (a, b))) acc) k
        = Some (serialize_value rt b)"
      using assms by (simp add: update_conv' serialize_item_def serialize_value_def split: val.splits)
    with True show ?thesis
      by (simp add: Cons.IH x map_of_append map_add_def split: option.split)
  next
    case False
    then have "map_of (AList.update (fst (serialize_item rt (a, b))) (snd (serialize_item rt (a, b))) acc) k
        = map_of acc k"
      using assms by (simp add: update_conv' serialize_item_def split: val.splits)
    with False show ?thesis
      by (simp add: Cons.IH x map_of_append map_add_def split: option.split)
  qed
qed

lemma serialize_lookup:
  assumes "k \<noteq> ''id''" and "k \<noteq> ''_id''"
  shows "map_of (serialize_doc rt d) k = map_option (serialize_value rt) (map_of (rev d) k)"
  by (simp add: serialize_doc_def serialize_fold_lookup [OF assms] split: option.split)

lemma keep_lookup: "map_of (keep k d) k' = (if k' = k then map_of d k else None)"
  by (simp add: keep_def split: option.split)

lemma keep_rev: "rev (keep k d) = keep k d"
  by (simp add: keep_def split: option.split)

lemma path_as_lookup: "map_of (path_as new k d) k' = (if k' = new then map_of d k else None)"
  by (simp add: path_as_def split: option.split)

lemma path_as_rev: "rev (path_as new k d) = path_as new k d"
  by (simp add: path_as_def split: option.split)

lemma application_status_lookup:
  assumes "k' \<noteq> ''application_status''"
  shows "map_of (application_status application) k' = None"
proof (cases "concat (map (keep ''application_status'') application)")
  case Nil
  show ?thesis
    unfolding application_status_def Nil using assms by simp
next
  case (Cons status others)
  then have "status \<in> set (concat (map (keep ''application_status'') application))"
    by simp
  then have "fst status = ''application_status''"
    by (auto simp: keep_def split: option.splits)
  with assms show ?thesis
    unfolding application_status_def Cons by (cases status) auto
qed

lemma application_status_rev: "rev (application_status application) = application_status application"
  by (simp add: application_status_def split: list.split)

lemma projected_posted_at:
  "map_of (rev (matched_project rt applications wid je)) ''posted_at'' = map_of (fst je) ''posted_at''"
  by (simp add: matched_project_def job_fields_def map_of_append map_add_def keep_rev path_as_rev
      application_status_rev keep_lookup path_as_lookup application_status_lookup
      split: option.split)

lemma projected_job_id:
  "map_of (rev (matched_project rt applications wid je)) ''job_id'' = Some (id_to_string rt (fst je))"
  by (simp add: matched_project_def job_fields_def map_of_append map_add_def keep_rev path_as_rev
      application_status_rev keep_lookup path_as_lookup application_status_lookup
      split: option.split)

lemma projected_posted_at_direct:
  "map_of (matched_project rt applications wid je) ''posted_at'' = map_of (fst je) ''posted_at''"
  by (simp add: matched_project_def job_fields_def map_of_append map_add_def
      keep_lookup path_as_lookup application_status_lookup split: option.split)

lemma result_job_id:
  "map_of (serialize_doc rt (matched_project rt applications wid je)) ''job_id''
     = Some (id_to_string rt (fst je))"
  by (simp add: serialize_lookup projected_job_id)
     (simp add: id_to_string_def serialize_value_def split: val.split)

lemma py_key_serialize_value:
  "py_key [(''posted_at'', serialize_value rt v)] = py_key [(''posted_at'', v)]"
  by (simp add: py_key_def serialize_value_def split: val.split)

lemma result_py_key:
  "py_key (serialize_doc rt (matched_project rt applications wid je)) = py_key (fst je)"
  by (cases "map_of (fst je) ''posted_at''")
     (simp_all add: py_key_def serialize_lookup projected_posted_at serialize_value_def split: val.split)

lemma projected_py_key: "py_key (matched_project rt applications wid je) = py_key (fst je)"
  by (simp add: py_key_def projected_posted_at_direct)

lemma projected_mongo_key: "mongo_key (matched_project rt applications wid je) = mongo_key (fst je)"
  by (simp add: mongo_key_def projected_posted_at_direct)

lemma dated_keys: "mongo_key x \<noteq> None \<Longrightarrow> mongo_key x = Some (posted_at x) \<and> py_key x \<noteq> None"
  by (auto simp: mongo_key_def posted_at_def py_key_def split: option.splits val.splits)

subsection \<open>Matched jobs: merge, order and cap\<close>

lemma scan_all_ok:
  "\<forall>p\<in>set ps. run p = Inr (f p) \<Longrightarrow> scan_partitions run ps = concat (map f ps)"
  by (induction ps) simp_all

lemma scan_all_fail:
  "\<forall>p\<in>set ps. run p = Inl e \<Longrightarrow> scan_partitions run ps = []"
  by (induction ps) simp_all

lemma unwind_employer_fst:
  "list_all (\<lambda>job. length (lookup_employer employers job) = 1) jobs
     \<Longrightarrow> map fst (unwind_employer employers jobs) = jobs"
proof (induction jobs)
  case Nil
  then show ?case by (simp add: unwind_employer_def)
next
  case (Cons job jobs)
  then obtain e where "lookup_employer employers job = [e]"
    by (cases "lookup_employer employers job") auto
  with Cons show ?case
    by (simp add: unwind_employer_def)
qed

lemma dated_sort_keys:
  assumes "\<forall>x\<in>set xs. mongo_key x = Some (posted_at x)"
  shows "map posted_at (sort_desc mongo_key xs) = rev (sort (map posted_at xs))"
proof (rule descending_unique)
  have "sorted_wrt (\<lambda>x y. mongo_key x \<ge> mongo_key y) (sort_desc mongo_key xs)"
    using sort_desc_descending [of mongo_key xs] by (simp add: sorted_wrt_map)
  then have "sorted_wrt (\<lambda>x y. posted_at x \<ge> posted_at y) (sort_desc mongo_key xs)"
  proof (rule sorted_wrt_mono_rel [rotated])
    fix x y
    assume "x \<in> set (sort_desc mongo_key xs)" and "y \<in> set (sort_desc mongo_key xs)"
      and "mongo_key y \<le> mongo_key x"
    with assms show "posted_at y \<le> posted_at x"
      by (simp add: sort_desc_set)
  qed
  then show "sorted_wrt (\<ge>) (map posted_at (sort_desc mongo_key xs))"
    by (simp add: sorted_wrt_map)
  show "sorted_wrt (\<ge>) (rev (sort (map posted_at xs)))"
    by (rule descending_rev_sort)
  show "mset (map posted_at (sort_desc mongo_key xs)) = mset (rev (sort (map posted_at xs)))"
    by (simp add: sort_desc_mset)
qed

lemma mset_concat_cong:
  "\<forall>p\<in>set ps. mset (f p) = mset (g p) \<Longrightarrow> mset (concat (map f ps)) = mset (concat (map g ps))"
  by (induction ps) simp_all

lemma image_mset_concat:
  "image_mset f (mset (concat (map g ps))) = mset (concat (map (\<lambda>p. map f (g p)) ps))"
  by (induction ps) simp_all

lemma length_concat_bound:
  "p \<in> set ps \<Longrightarrow> length (f p) \<le> length (concat (map f ps))"
  by (induction ps) auto

lemma descending_take_rev_sort:
  "sorted (rev (take n (rev (sort (xs :: 'a::linorder list)))))"
  by (simp add: rev_take sorted_wrt_drop)

lemma unwind_employer_concat:
  "unwind_employer emps (concat xss) = concat (map (unwind_employer emps) xss)"
  by (induction xss) (simp_all add: unwind_employer_def)

lemma filter_key_unique:
  "distinct (map f xs) \<Longrightarrow> length (filter (\<lambda>x. f x = v) xs) \<le> 1"
  by (induction xs) (auto simp: filter_empty_conv image_iff)

lemma unwind_employer_filter:
  assumes "distinct (map (\<lambda>e. or_null (map_of e ''_id'')) emps)"
  shows "map fst (unwind_employer emps jobs) = filter (\<lambda>job. lookup_employer emps job \<noteq> []) jobs"
proof (induction jobs)
  case Nil
  then show ?case by (simp add: unwind_employer_def)
next
  case (Cons job jobs)
  have "length (lookup_employer emps job) \<le> 1"
    unfolding lookup_employer_def using assms by (rule filter_key_unique)
  then consider "lookup_employer emps job = []" | e where "lookup_employer emps job = [e]"
    by (cases "lookup_employer emps job") (auto simp: Suc_le_eq)
  then show ?case
  proof cases
    case 1
    with Cons show ?thesis by (simp add: unwind_employer_def)
  next
    case 2
    with Cons show ?thesis by (simp add: unwind_employer_def)
  qed
qed

text \<open>
  Employer ids are unique in the store (\<^verbatim>\<open>insert_one\<close> refuses a second document with
  the same \<^verbatim>\<open>_id\<close>). Then the joined jobs are the matching jobs whose employer row
  exists, each once and in the order of the scan.
\<close>

lemma joined_jobs_employed:
  assumes "distinct (map (\<lambda>e. or_null (map_of e ''_id'')) (get_collection db ''employers''))"
  shows "joined_jobs rt db skills location
     = filter (\<lambda>job. lookup_employer (get_collection db ''employers'') job \<noteq> [])
         (matching_jobs rt db skills location)"
  unfolding joined_jobs_def using assms by (rule unwind_employer_filter)

text \<open>
  C5, as the code has it. \<^verbatim>\<open>worker_matched_jobs\<close> merges the partitions correctly
  for the jobs that pass its employer join. Let the joined jobs be the jobs of all year
  partitions that pass the \<^verbatim>\<open>$match\<close> stage and have their employer row (a matching
  job without one is dropped by \<^verbatim>\<open>$unwind\<close> and is not returned), each with a datetime
  \<^verbatim>\<open>posted_at\<close>. Then the call returns; the result is in descending order of
  \<^verbatim>\<open>posted_at\<close>; its \<^verbatim>\<open>posted_at\<close> values are the 100 latest of the joined jobs of
  all partitions together, whatever the order inside the partitions (the sort and the cap
  act on the merged list, and the per-partition \<^verbatim>\<open>$sort\<close> and \<^verbatim>\<open>$limit\<close> of the
  pipeline lose nothing); it has \<open>min 100 n\<close> entries for \<open>n\<close> joined jobs; and when
  there are at most 100 of them, the returned \<^verbatim>\<open>job_id\<close>s are exactly theirs, each as
  often as it is listed: no duplicates, no losses.
\<close>

theorem worker_matched_jobs_merge:
  assumes wid: "str_to_object_id rt worker_id = Inr wid"
    and dated: "list_all (\<lambda>job. mongo_key job \<noteq> None) (joined_jobs rt db skills location)"
  shows "\<exists>rs. worker_matched_jobs rt db worker_id skills location = Inr rs
     \<and> sorted (rev (map posted_at rs))
     \<and> map posted_at rs
         = take 100 (rev (sort (map posted_at (joined_jobs rt db skills location))))
     \<and> length rs = min 100 (length (joined_jobs rt db skills location))
     \<and> (length (joined_jobs rt db skills location) \<le> 100 \<longrightarrow>
          mset (map (\<lambda>r. map_of r ''job_id'') rs)
            = mset (map (\<lambda>job. Some (id_to_string rt job)) (joined_jobs rt db skills location)))"
proof (cases "matched_condition rt (skill_tokens skills) location")
  case None
  then have "aggregate_matched rt db wid (skill_tokens skills) location p = Inl OperationFailure" for p
    by (simp add: aggregate_matched_def)
  then have "scan_partitions (aggregate_matched rt db wid (skill_tokens skills) location)
      (get_all_job_partitions db) = []"
    by (intro scan_all_fail [where e = OperationFailure]) simp
  then have "worker_matched_jobs rt db worker_id skills location = Inr []"
    using wid by (simp add: worker_matched_jobs_def py_sort_desc_def sort_desc_def)
  moreover from None have "joined_jobs rt db skills location = []"
    by (simp add: joined_jobs_def matching_jobs_def unwind_employer_def)
  ultimately show ?thesis by simp
next
  case (Some cond)
  define ps where "ps = get_all_job_partitions db"
  define emps where "emps = get_collection db ''employers''"
  define apps where "apps = get_collection db ''applications''"
  define J where "J = (\<lambda>p. filter cond (get_collection db p))"
  define U where "U = (\<lambda>p. map fst (unwind_employer emps (J p)))"
  define L where "L = (\<lambda>p. map (matched_project rt apps wid) (unwind_employer emps (J p)))"
  define R where "R = (\<lambda>p. take 100 (sort_desc mongo_key (L p)))"
  define results where "results = concat (map R ps)"
  define M where "M = joined_jobs rt db skills location"
  have "matching_jobs rt db skills location = concat (map J ps)"
    using Some by (simp add: matching_jobs_def J_def ps_def)
  then have M: "M = concat (map U ps)"
    by (simp add: M_def joined_jobs_def emps_def [symmetric] unwind_employer_concat map_concat
        U_def comp_def)
  have in_M: "set (U p) \<subseteq> set M" if "p \<in> set ps" for p
    using that by (auto simp: M)
  have keys_L: "map posted_at (L p) = map posted_at (U p)" for p
    by (simp add: L_def U_def posted_at_def projected_py_key)
  have ids_L: "map (\<lambda>x. map_of (serialize_doc rt x) ''job_id'') (L p)
      = map (\<lambda>job. Some (id_to_string rt job)) (U p)" for p
    by (simp add: L_def U_def result_job_id)
  have dated_L: "mongo_key x = Some (posted_at x) \<and> py_key x \<noteq> None"
    if "p \<in> set ps" and "x \<in> set (L p)" for p x
  proof -
    from that(2) obtain je where je: "je \<in> set (unwind_employer emps (J p))"
        and x: "x = matched_project rt apps wid je"
      by (auto simp: L_def)
    from je have "fst je \<in> set (U p)"
      by (simp add: U_def)
    then have "fst je \<in> set M"
      using in_M [OF that(1)] by auto
    with dated have "mongo_key (fst je) \<noteq> None"
      by (simp add: list_all_iff M_def)
    then have "mongo_key x \<noteq> None"
      by (simp add: x projected_mongo_key)
    then show ?thesis by (rule dated_keys)
  qed
  have serialized_key: "posted_at (serialize_doc rt x) = posted_at x"
    if "p \<in> set ps" and "x \<in> set (L p)" for p x
    using that(2) by (auto simp: L_def posted_at_def result_py_key projected_py_key)
  have keys_R: "map posted_at (R p) = take 100 (rev (sort (map posted_at (U p))))"
    if "p \<in> set ps" for p
  proof -
    have "map posted_at (sort_desc mongo_key (L p)) = rev (sort (map posted_at (L p)))"
      using dated_L [OF that] by (intro dated_sort_keys) simp
    then show ?thesis
      by (simp only: R_def take_map [symmetric] keys_L)
  qed
  have in_results: "\<exists>p\<in>set ps. x \<in> set (L p)" if "x \<in> set results" for x
  proof -
    from that obtain p where "p \<in> set ps" and "x \<in> set (R p)"
      by (auto simp: results_def)
    moreover then have "x \<in> set (L p)"
      by (auto simp: R_def sort_desc_set dest: in_set_takeD)
    ultimately show ?thesis by blast
  qed
  have scan: "scan_partitions (aggregate_matched rt db wid (skill_tokens skills) location)
      (get_all_job_partitions db) = results"
    unfolding results_def ps_def
    by (rule scan_all_ok)
       (simp add: aggregate_matched_def Some R_def L_def J_def apps_def emps_def)
  have comparable: "\<not> list_ex (\<lambda>x. py_key x = None) results"
    unfolding list_ex_iff
  proof
    assume "\<exists>x\<in>set results. py_key x = None"
    then obtain x where "x \<in> set results" and none: "py_key x = None" by blast
    then obtain p where "p \<in> set ps" and "x \<in> set (L p)"
      using in_results by blast
    then have "py_key x \<noteq> None"
      using dated_L by blast
    with none show False by contradiction
  qed
  define rs where "rs = map (serialize_doc rt) (take 100 (sort_desc posted_at results))"
  have run: "worker_matched_jobs rt db worker_id skills location = Inr rs"
    using wid comparable by (simp add: worker_matched_jobs_def scan py_sort_desc_def rs_def)
  have "map posted_at rs = map posted_at (take 100 (sort_desc posted_at results))"
    unfolding rs_def map_map
  proof (rule map_cong [OF refl])
    fix x assume "x \<in> set (take 100 (sort_desc posted_at results))"
    then have "x \<in> set results"
      by (auto simp: sort_desc_set dest: in_set_takeD)
    with in_results serialized_key show "(posted_at \<circ> serialize_doc rt) x = posted_at x"
      by auto
  qed
  also have "\<dots> = take 100 (rev (sort (map posted_at results)))"
    by (simp only: take_map [symmetric] sort_desc_keys)
  also have "map posted_at results = concat (map (\<lambda>p. take 100 (rev (sort (map posted_at (U p))))) ps)"
    using keys_R by (simp add: results_def map_concat cong: map_cong)
  also have "take 100 (rev (sort \<dots>)) = take 100 (rev (sort (concat (map (\<lambda>p. map posted_at (U p)) ps))))"
    by (rule top_of_tops)
  also have "concat (map (\<lambda>p. map posted_at (U p)) ps) = map posted_at M"
    by (simp add: M map_concat comp_def)
  finally have keys: "map posted_at rs = take 100 (rev (sort (map posted_at M)))" .
  have ordered: "sorted (rev (map posted_at rs))"
    unfolding keys by (rule descending_take_rev_sort)
  have "length (map posted_at rs) = min 100 (length M)"
    unfolding keys by simp
  then have len: "length rs = min 100 (length M)"
    by simp
  have exact: "mset (map (\<lambda>r. map_of r ''job_id'') rs) = mset (map (\<lambda>job. Some (id_to_string rt job)) M)"
    if small: "length M \<le> 100"
  proof -
    have short: "length (L p) \<le> 100" if "p \<in> set ps" for p
    proof -
      have "length (L p) = length (map posted_at (L p))" by simp
      also have "\<dots> = length (U p)" by (simp only: keys_L length_map)
      also have "\<dots> \<le> length M" unfolding M using that by (rule length_concat_bound)
      finally show ?thesis using small by simp
    qed
    then have Rp: "mset (R p) = mset (L p)" if "p \<in> set ps" for p
      using that by (simp add: R_def sort_desc_length sort_desc_mset)
    have "length results = length (map posted_at results)" by simp
    also have "map posted_at results = concat (map (\<lambda>p. take 100 (rev (sort (map posted_at (U p))))) ps)"
      using keys_R by (simp add: results_def map_concat cong: map_cong)
    also have "\<dots> = concat (map (\<lambda>p. rev (sort (map posted_at (U p)))) ps)"
    proof -
      have "take 100 (rev (sort (map posted_at (U p)))) = rev (sort (map posted_at (U p)))"
        if "p \<in> set ps" for p
        using short [OF that] keys_L [of p]
        by (metis length_map length_rev length_sort take_all)
      then show ?thesis by (simp cong: map_cong)
    qed
    also have "length \<dots> = length M"
      by (simp add: M length_concat comp_def)
    finally have "length results \<le> 100" using small by simp
    then have "rs = map (serialize_doc rt) (sort_desc posted_at results)"
      by (simp add: rs_def sort_desc_length)
    then have "mset (map (\<lambda>r. map_of r ''job_id'') rs)
        = mset (map (\<lambda>x. map_of (serialize_doc rt x) ''job_id'') (sort_desc posted_at results))"
      by (simp add: comp_def)
    also have "\<dots> = image_mset (\<lambda>x. map_of (serialize_doc rt x) ''job_id'') (mset results)"
      by (simp add: sort_desc_mset)
    also have "mset results = mset (concat (map L ps))"
      unfolding results_def using Rp by (intro mset_concat_cong) simp
    also have "image_mset (\<lambda>x. map_of (serialize_doc rt x) ''job_id'') (mset (concat (map L ps)))
        = mset (concat (map (\<lambda>p. map (\<lambda>x. map_of (serialize_doc rt x) ''job_id'') (L p)) ps))"
      by (rule image_mset_concat)
    also have "\<dots> = mset (concat (map (\<lambda>p. map (\<lambda>job. Some (id_to_string rt job)) (U p)) ps))"
      using ids_L by (simp cong: map_cong)
    also have "\<dots> = mset (map (\<lambda>job. Some (id_to_string rt job)) M)"
      by (simp add: M map_concat comp_def)
    finally show ?thesis .
  qed
  from run ordered keys len exact show ?thesis
    unfolding M_def by blast
qed

lemma sample_matching:
  "matching_jobs sample_rt sample_db ''Python, React'' (Some ''Mumbai'')
     = [sample_job 101 ''React, MongoDB, Node.js'' ''Mumbai'' (2024, 2000),
        sample_job 102 ''Python'' ''Mumbai'' (2024, 0),
        sample_job 103 ''python, sql'' ''Mumbai'' (2024, 1000),
        sample_job 104 ''React'' ''Mumbai'' (2025, 0),
        sample_job 105 ''Django, Python'' ''Mumbai'' (2025, 1000)]"
  by code_simp

lemma sample_joined:
  "joined_jobs sample_rt sample_db ''Python, React'' (Some ''Mumbai'')
     = [sample_job 101 ''React, MongoDB, Node.js'' ''Mumbai'' (2024, 2000),
        sample_job 102 ''Python'' ''Mumbai'' (2024, 0),
        sample_job 103 ''python, sql'' ''Mumbai'' (2024, 1000),
        sample_job 104 ''React'' ''Mumbai'' (2025, 0),
        sample_job 105 ''Django, Python'' ''Mumbai'' (2025, 1000)]"
  by code_simp

theorem worker_matched_jobs_merge_witness:
  "str_to_object_id sample_rt (VOid (ObjectId 12)) = Inr (VOid (ObjectId 12))
   \<and> list_all (\<lambda>job. mongo_key job \<noteq> None)
        (joined_jobs sample_rt sample_db ''Python, React'' (Some ''Mumbai''))
   \<and> length (matching_jobs sample_rt sample_db ''Python, React'' (Some ''Mumbai'')) = 5
   \<and> length (joined_jobs sample_rt sample_db ''Python, React'' (Some ''Mumbai'')) = 5
   \<and> (\<exists>rs. worker_matched_jobs sample_rt sample_db (VOid (ObjectId 12)) ''Python, React''
               (Some ''Mumbai'') = Inr rs
         \<and> sorted (rev (map posted_at rs))
         \<and> map posted_at rs
             = take 100 (rev (sort (map posted_at
                 (joined_jobs sample_rt sample_db ''Python, React'' (Some ''Mumbai'')))))
         \<and> length rs = min 100 (length (joined_jobs sample_rt sample_db ''Python, React''
                                          (Some ''Mumbai'')))
         \<and> mset (map (\<lambda>r. map_of r ''job_id'') rs)
             = mset (map (\<lambda>job. Some (id_to_string sample_rt job))
                       (joined_jobs sample_rt sample_db ''Python, React'' (Some ''Mumbai''))))"
proof -
  have dated: "list_all (\<lambda>job. mongo_key job \<noteq> None)
        (joined_jobs sample_rt sample_db ''Python, React'' (Some ''Mumbai''))"
    unfolding sample_joined by (simp add: mongo_key_def sample_job_def)
  have five: "length (joined_jobs sample_rt sample_db ''Python, React'' (Some ''Mumbai'')) = 5"
    unfolding sample_joined by simp
  have all: "length (matching_jobs sample_rt sample_db ''Python, React'' (Some ''Mumbai'')) = 5"
    unfolding sample_matching by simp
  from worker_matched_jobs_merge [OF sample_ids(1) dated]
  obtain rs where "worker_matched_jobs sample_rt sample_db (VOid (ObjectId 12)) ''Python, React''
               (Some ''Mumbai'') = Inr rs"
    and "sorted (rev (map posted_at rs))"
    and "map posted_at rs
             = take 100 (rev (sort (map posted_at
                 (joined_jobs sample_rt sample_db ''Python, React'' (Some ''Mumbai'')))))"
    and "length rs = min 100 (length (joined_jobs sample_rt sample_db ''Python, React''
                                          (Some ''Mumbai'')))"
    and "length (joined_jobs sample_rt sample_db ''Python, React'' (Some ''Mumbai'')) \<le> 100 \<longrightarrow>
          mset (map (\<lambda>r. map_of r ''job_id'') rs)
            = mset (map (\<lambda>job. Some (id_to_string sample_rt job))
                      (joined_jobs sample_rt sample_db ''Python, React'' (Some ''Mumbai'')))"
    by blast
  with five all dated sample_ids(1) [of "ObjectId 12"] show ?thesis
    by auto
qed

lemma orphaned_db_eq:
  "orphaned_db =
     [(''users'', [[(''_id'', VOid (ObjectId 2)), (''email'', VStr ''acme@example.org''),
                    (''role'', VStr ''employer'')]]),
      (''employers'', [[(''_id'', VOid (ObjectId 20)), (''user_id'', VOid (ObjectId 2)),
                        (''company_name'', VStr ''Acme''), (''phone'', VStr ''555''),
                        (''location'', VStr ''Mumbai'')]]),
      (''jobs_2024'', [sample_job 102 ''Python'' ''Mumbai'' (2024, 0),
                       AList.update ''employer_id'' (VOid (ObjectId 21))
                         (sample_job 103 ''python, sql'' ''Pune'' (2024, 1000))]),
      (''jobs_2025'', [sample_job 105 ''Django, Python'' ''Mumbai'' (2025, 1000)])]"
  by (simp add: orphaned_db_def delete_user_def sample_employers_db_def sample_job_def sample_eval)

text \<open>
  A run in which a matching job is lost. \<^verbatim>\<open>delete_user\<close> of the user of employer 21
  succeeds and leaves job 103, which employer 21 posted, in \<^verbatim>\<open>jobs_2024\<close>. Three open
  jobs in two partitions then match the skill "python", and \<^verbatim>\<open>worker_matched_jobs\<close>
  returns two of them: job 103 has no employer row and is dropped by the join.
\<close>

theorem worker_matched_jobs_merge_counterexample:
  "fst (delete_user sample_rt sample_employers_db (VOid (ObjectId 3))) = Inr 1
   \<and> matching_jobs sample_rt orphaned_db ''python'' None
       = [sample_job 102 ''Python'' ''Mumbai'' (2024, 0),
          AList.update ''employer_id'' (VOid (ObjectId 21))
            (sample_job 103 ''python, sql'' ''Pune'' (2024, 1000)),
          sample_job 105 ''Django, Python'' ''Mumbai'' (2025, 1000)]
   \<and> worker_matched_jobs sample_rt orphaned_db (VOid (ObjectId 12)) ''python'' None
       = Inr [[(''id'', VStr ''105''), (''job_id'', VStr ''105''),
               (''title'', VStr ''Developer''), (''location'', VStr ''Mumbai''),
               (''posted_at'', VTime (2025, 1000)),
               (''required_skills'', VStr ''Django, Python''),
               (''application_status'', VNone), (''company_name'', VStr ''Acme''),
               (''company_phone'', VStr ''555''), (''company_location'', VStr ''Mumbai'')],
              [(''id'', VStr ''102''), (''job_id'', VStr ''102''),
               (''title'', VStr ''Developer''), (''location'', VStr ''Mumbai''),
               (''posted_at'', VTime (2024, 0)),
               (''required_skills'', VStr ''Python''),
               (''application_status'', VNone), (''company_name'', VStr ''Acme''),
               (''company_phone'', VStr ''555''), (''company_location'', VStr ''Mumbai'')]]"
proof -
  have deleted: "fst (delete_user sample_rt sample_employers_db (VOid (ObjectId 3))) = Inr 1"
    by (simp add: delete_user_def sample_employers_db_def sample_job_def sample_eval)
  have matching: "matching_jobs sample_rt orphaned_db ''python'' None
       = [sample_job 102 ''Python'' ''Mumbai'' (2024, 0),
          AList.update ''employer_id'' (VOid (ObjectId 21))
            (sample_job 103 ''python, sql'' ''Pune'' (2024, 1000)),
          sample_job 105 ''Django, Python'' ''Mumbai'' (2025, 1000)]"
    unfolding orphaned_db_eq by code_simp
  have returned: "worker_matched_jobs sample_rt orphaned_db (VOid (ObjectId 12)) ''python'' None
       = Inr [[(''id'', VStr ''105''), (''job_id'', VStr ''105''),
               (''title'', VStr ''Developer''), (''location'', VStr ''Mumbai''),
               (''posted_at'', VTime (2025, 1000)),
               (''required_skills'', VStr ''Django, Python''),
               (''application_status'', VNone), (''company_name'', VStr ''Acme''),
               (''company_phone'', VStr ''555''), (''company_location'', VStr ''Mumbai'')],
              [(''id'', VStr ''102''), (''job_id'', VStr ''102''),
               (''title'', VStr ''Developer''), (''location'', VStr ''Mumbai''),
               (''posted_at'', VTime (2024, 0)),
               (''required_skills'', VStr ''Python''),
               (''application_status'', VNone), (''company_name'', VStr ''Acme''),
               (''company_phone'', VStr ''555''), (''company_location'', VStr ''Mumbai'')]]"
    unfolding orphaned_db_eq by code_simp
  from deleted matching returned show ?thesis
    by (intro conjI)
qed

subsection \<open>Free-text search\<close>

lemma search_jobs_reads_jobs_only:
  assumes "get_collection db ''jobs'' = get_collection db' ''jobs''"
      and "get_collection db ''employers'' = get_collection db' ''employers''"
  shows "search_jobs rt db query_text location skills = search_jobs rt db' query_text location skills"
  unfolding search_jobs_def by (subst assms(1), subst assms(2), rule refl)

text \<open>
  C1 (\<^verbatim>\<open>search_jobs\<close> and the partitions). \<^verbatim>\<open>search_jobs\<close> runs one aggregation, on
  the unpartitioned \<^verbatim>\<open>jobs\<close> collection; the year partitions, where \<^verbatim>\<open>post_job\<close> puts
  every job, are not read. On the sample database the partitions \<^verbatim>\<open>jobs_2024\<close> and
  \<^verbatim>\<open>jobs_2025\<close> hold three open jobs whose \<^verbatim>\<open>required_skills\<close> contain "python"
  (the jobs the partition scan of \<^verbatim>\<open>worker_matched_jobs\<close> matches), each with its
  employer, and \<^verbatim>\<open>search_jobs("python")\<close> returns the empty list.
\<close>

theorem search_jobs_skips_partitions:
  "get_all_job_partitions sample_db = [''jobs_2024'', ''jobs_2025'']
   \<and> matching_jobs sample_rt sample_db ''python'' None
       = [sample_job 102 ''Python'' ''Mumbai'' (2024, 0),
          sample_job 103 ''python, sql'' ''Mumbai'' (2024, 1000),
          sample_job 105 ''Django, Python'' ''Mumbai'' (2025, 1000)]
   \<and> list_all (\<lambda>job. length (lookup_employer (get_collection sample_db ''employers'') job) = 1)
        (matching_jobs sample_rt sample_db ''python'' None)
   \<and> search_jobs sample_rt sample_db (Some ''python'') None None = Inr []
   \<and> search_jobs sample_rt sample_db None None None = Inr []"
proof -
  have parts: "get_all_job_partitions sample_db = [''jobs_2024'', ''jobs_2025'']"
    by (simp add: get_all_job_partitions_def list_collection_names_def sample_db_def)
  have matching: "matching_jobs sample_rt sample_db ''python'' None
       = [sample_job 102 ''Python'' ''Mumbai'' (2024, 0),
          sample_job 103 ''python, sql'' ''Mumbai'' (2024, 1000),
          sample_job 105 ''Django, Python'' ''Mumbai'' (2025, 1000)]"
    by code_simp
  have employed: "list_all (\<lambda>job. length (lookup_employer (get_collection sample_db ''employers'') job) = 1)
        (matching_jobs sample_rt sample_db ''python'' None)"
    unfolding matching
    by (simp add: lookup_employer_def get_collection_def sample_db_def sample_job_def or_null_def)
  have no_jobs: "get_collection sample_db ''jobs'' = []"
    by (simp add: get_collection_def sample_db_def)
  have "search_jobs sample_rt sample_db (Some ''python'') None None = Inr []"
    by (simp add: search_jobs_def search_condition_def compile_def nonempty_def sample_rt_def
        no_jobs unwind_employer_def sort_desc_def)
  moreover have "search_jobs sample_rt sample_db None None None = Inr []"
    by (simp add: search_jobs_def search_condition_def compile_def nonempty_def
        no_jobs unwind_employer_def sort_desc_def)
  ultimately show ?thesis
    using parts matching employed by simp
qed

end
